theory Spec2Isabelle
  imports Complex_Main
begin

section \<open>Python values shared by the whole development\<close>

text \<open>
  Exceptions are values: every \<^verbatim>\<open>raise\<close> and every failing \<^verbatim>\<open>assert\<close> of the source is
  a branch returning \<open>Inl\<close> of one of these. The string is the message of the source.
\<close>

datatype error =
    ValueError string
  | TypeError string
  | RuntimeError string
  | NotImplementedError string
  | AssertionError
  | KeyError string
  | IndexError
  | ExternalError string

text \<open>
  The sentinel class \<^verbatim>\<open>_not_provided\<close>: a keyword argument is either left at the sentinel or
  carries a value (which may itself be \<^verbatim>\<open>None\<close>, hence the option types below).
\<close>

datatype 'a provided = NotProvided | Provided 'a

text \<open>
  Python's \<^verbatim>\<open>x or y\<close> where \<^verbatim>\<open>x\<close> defaults to \<^verbatim>\<open>None\<close>: the result is \<^verbatim>\<open>x\<close> when it is
  truthy, and \<^verbatim>\<open>y\<close> otherwise. \<open>None\<close> is falsy; the first argument says which values of the
  type are truthy.
\<close>

definition py_or :: "('a \<Rightarrow> bool) \<Rightarrow> 'a option \<Rightarrow> 'a \<Rightarrow> 'a" where
  "py_or truthy x y = (case x of None \<Rightarrow> y | Some v \<Rightarrow> if truthy v then v else y)"

definition py_or_opt :: "('a \<Rightarrow> bool) \<Rightarrow> 'a option \<Rightarrow> 'a option \<Rightarrow> 'a option" where
  "py_or_opt truthy x y = (case x of None \<Rightarrow> y | Some v \<Rightarrow> if truthy v then Some v else y)"

definition truthy_object :: "'a \<Rightarrow> bool" where
  "truthy_object x = True"

definition truthy_int :: "int \<Rightarrow> bool" where
  "truthy_int n = (n \<noteq> 0)"

definition truthy_str :: "string \<Rightarrow> bool" where
  "truthy_str s = (s \<noteq> [])"

definition truthy_bool :: "bool \<Rightarrow> bool" where
  "truthy_bool b = b"


section \<open>Discretizations and configuration values\<close>

datatype dtype = Float32 | Float64

text \<open>\<^verbatim>\<open>np.finfo(dtype).eps\<close>: the machine epsilon of the two real dtypes.\<close>

fun finfo_eps :: "dtype \<Rightarrow> real" where
  "finfo_eps Float32 = 1 / 2 ^ 23"
| "finfo_eps Float64 = 1 / 2 ^ 52"

text \<open>
  A discretization object. \<open>discr_id\<close> is the object's identity (what Python's \<^verbatim>\<open>is\<close>
  compares); the other fields are the attributes the source reads.
\<close>

record discretization =
  discr_id :: nat
  real_dtype :: dtype
  ambient_dim :: nat
  dim :: nat
  nnodes :: nat

type_synonym connection = nat

datatype expansion_factory = DefaultExpansionFactory | UserExpansionFactory nat

datatype cost_model = CostModel | UserCostModel nat

text \<open>
  The argument \<^verbatim>\<open>fmm_order\<close> is \<^verbatim>\<open>None\<close>, \<^verbatim>\<open>False\<close> (direct evaluation) or a fixed order.
  The attribute \<^verbatim>\<open>fmm_level_to_order\<close> is \<^verbatim>\<open>False\<close>, the closure that returns the constructor's
  \<^verbatim>\<open>fmm_order\<close> (which may be \<^verbatim>\<open>None\<close>), or a function supplied by the caller (named by a
  number here).
\<close>

datatype order_arg = OrderFalse | Order int

datatype level_to_order =
    LevelToOrderFalse
  | ConstantOrder "int option"
  | LevelToOrderFun nat


section \<open>\<^verbatim>\<open>QBXLayerPotentialSource\<close>: constructor and copy\<close>

record 'i qbx_source =
  density_discr :: discretization
  fine_order :: int
  qbx_order :: int
  fmm_level_to_order :: level_to_order
  target_association_tolerance :: "real option"
  fmm_backend :: string
  use_fft :: bool
  to_refined_connection :: "connection option"
  expansion_factory :: expansion_factory
  debug :: bool
  refined_for_global_qbx :: bool
  expansions_in_tree_have_extent :: bool
  expansion_stick_out_factor :: real
  well_sep_is_n_away :: int
  max_leaf_refine_weight :: int
  box_extent_norm :: string
  from_sep_smaller_crit :: string
  from_sep_smaller_min_nsources_cumul :: int
  tree_kind :: "string option"
  use_target_specific_qbx :: "bool option"
  geometry_data_inspector :: "'i option"
  cost_model :: cost_model

text \<open>The keyword arguments of \<^verbatim>\<open>QBXLayerPotentialSource.__init__\<close>.\<close>

record 'i qbx_args =
  arg_density_discr :: discretization
  arg_fine_order :: "int option"
  arg_qbx_order :: "int option"
  arg_fmm_order :: "order_arg option"
  arg_fmm_level_to_order :: "level_to_order option"
  arg_to_refined_connection :: "connection option"
  arg_expansion_factory :: "expansion_factory option"
  arg_target_association_tolerance :: "real option provided"
  arg_debug :: bool
  arg_refined_for_global_qbx :: bool
  arg_expansions_in_tree_have_extent :: bool
  arg_expansion_stick_out_factor :: real
  arg_well_sep_is_n_away :: int
  arg_max_leaf_refine_weight :: "int option"
  arg_box_extent_norm :: "string option"
  arg_from_sep_smaller_crit :: "string option"
  arg_from_sep_smaller_min_nsources_cumul :: "int option"
  arg_tree_kind :: "string option"
  arg_use_target_specific_qbx :: "bool option"
  arg_geometry_data_inspector :: "'i option"
  arg_cost_model :: "cost_model option"
  arg_fmm_backend :: string
  arg_use_fft :: bool
  arg_target_stick_out_factor :: "real option provided"

text \<open>The defaults of the signature, for the two positional arguments given.\<close>

definition default_args :: "discretization \<Rightarrow> int option \<Rightarrow> 'i qbx_args" where
  "default_args dd fo =
     \<lparr> arg_density_discr = dd,
       arg_fine_order = fo,
       arg_qbx_order = None,
       arg_fmm_order = None,
       arg_fmm_level_to_order = None,
       arg_to_refined_connection = None,
       arg_expansion_factory = None,
       arg_target_association_tolerance = NotProvided,
       arg_debug = True,
       arg_refined_for_global_qbx = False,
       arg_expansions_in_tree_have_extent = True,
       arg_expansion_stick_out_factor = 1 / 2,
       arg_well_sep_is_n_away = 2,
       arg_max_leaf_refine_weight = None,
       arg_box_extent_norm = None,
       arg_from_sep_smaller_crit = None,
       arg_from_sep_smaller_min_nsources_cumul = None,
       arg_tree_kind = Some ''adaptive'',
       arg_use_target_specific_qbx = None,
       arg_geometry_data_inspector = None,
       arg_cost_model = None,
       arg_fmm_backend = ''sumpy'',
       arg_use_fft = False,
       arg_target_stick_out_factor = NotProvided \<rparr>"

text \<open>
  The tolerance after the argument processing of lines 136 to 154: the deprecated alias
  replaces the argument, and the sentinel becomes \<open>1e3\<close> times the machine epsilon.
\<close>

definition init_tolerance :: "'i qbx_args \<Rightarrow> real option" where
  "init_tolerance a =
     (case (if arg_target_stick_out_factor a \<noteq> NotProvided
            then arg_target_stick_out_factor a
            else arg_target_association_tolerance a) of
        NotProvided \<Rightarrow> Some (finfo_eps (real_dtype (arg_density_discr a)) * 1000)
      | Provided t \<Rightarrow> t)"

definition init_level_to_order :: "'i qbx_args \<Rightarrow> level_to_order" where
  "init_level_to_order a =
     (case arg_fmm_level_to_order a of
        Some f \<Rightarrow> f
      | None \<Rightarrow>
          (case arg_fmm_order a of
             Some OrderFalse \<Rightarrow> LevelToOrderFalse
           | Some (Order n) \<Rightarrow> ConstantOrder (Some n)
           | None \<Rightarrow> ConstantOrder None))"

definition init_max_leaf_refine_weight :: "'i qbx_args \<Rightarrow> int" where
  "init_max_leaf_refine_weight a =
     (case arg_max_leaf_refine_weight a of
        Some w \<Rightarrow> w
      | None \<Rightarrow>
          if ambient_dim (arg_density_discr a) = 2 then 64
          else if ambient_dim (arg_density_discr a) = 3 then 512
          else 64)"

definition init_min_nsources_cumul :: "'i qbx_args \<Rightarrow> int" where
  "init_min_nsources_cumul a =
     (case arg_from_sep_smaller_min_nsources_cumul a of
        Some n \<Rightarrow> n
      | None \<Rightarrow> if dim (arg_density_discr a) = 1 then 15 else 30)"

text \<open>
  The attribute assignments of lines 196 to 235, for the \<^verbatim>\<open>fine_order\<close> and
  \<^verbatim>\<open>qbx_order\<close> that passed the checks.
\<close>

definition init_attributes :: "'i qbx_args \<Rightarrow> int \<Rightarrow> int \<Rightarrow> 'i qbx_source" where
  "init_attributes a fo qo =
     \<lparr> density_discr = arg_density_discr a,
       fine_order = fo,
       qbx_order = qo,
       fmm_level_to_order = init_level_to_order a,
       target_association_tolerance = init_tolerance a,
       fmm_backend = arg_fmm_backend a,
       use_fft = arg_use_fft a,
       to_refined_connection = arg_to_refined_connection a,
       expansion_factory =
         (case arg_expansion_factory a of None \<Rightarrow> DefaultExpansionFactory | Some f \<Rightarrow> f),
       debug = arg_debug a,
       refined_for_global_qbx = arg_refined_for_global_qbx a,
       expansions_in_tree_have_extent = arg_expansions_in_tree_have_extent a,
       expansion_stick_out_factor = arg_expansion_stick_out_factor a,
       well_sep_is_n_away = arg_well_sep_is_n_away a,
       max_leaf_refine_weight = init_max_leaf_refine_weight a,
       box_extent_norm = (case arg_box_extent_norm a of None \<Rightarrow> ''l2'' | Some n \<Rightarrow> n),
       from_sep_smaller_crit =
         (case arg_from_sep_smaller_crit a of None \<Rightarrow> ''precise_linf'' | Some c \<Rightarrow> c),
       from_sep_smaller_min_nsources_cumul = init_min_nsources_cumul a,
       tree_kind = arg_tree_kind a,
       use_target_specific_qbx = arg_use_target_specific_qbx a,
       geometry_data_inspector = arg_geometry_data_inspector a,
       cost_model = (case arg_cost_model a of None \<Rightarrow> CostModel | Some m \<Rightarrow> m) \<rparr>"

text \<open>
  \<^verbatim>\<open>QBXLayerPotentialSource.__init__\<close>. The checks come in the order of the source; the
  object exists only when none of them raised. The assertion of line 202 follows the base
  class constructor, which only stores \<^verbatim>\<open>density_discr\<close>.
\<close>

definition qbx_init :: "'i qbx_args \<Rightarrow> error + 'i qbx_source" where
  "qbx_init a =
     (case arg_fine_order a of
        None \<Rightarrow> Inl (ValueError ''fine_order must be provided.'')
      | Some fo \<Rightarrow>
     (case arg_qbx_order a of
        None \<Rightarrow> Inl (ValueError ''qbx_order must be provided.'')
      | Some qo \<Rightarrow>
      if arg_target_stick_out_factor a \<noteq> NotProvided
           \<and> arg_target_association_tolerance a \<noteq> NotProvided
        then Inl (TypeError ''May not pass both target_association_tolerance and target_stick_out_factor.'')
      else if arg_fmm_order a \<noteq> None \<and> arg_fmm_level_to_order a \<noteq> None
        then Inl (TypeError ''may not specify both fmm_order and fmm_level_to_order'')
      else if init_tolerance a = None then Inl AssertionError
      else Inr (init_attributes a fo qo)))"

text \<open>The keyword arguments of \<^verbatim>\<open>QBXLayerPotentialSource.copy\<close>, with their defaults.\<close>

record 'i qbx_copy_args =
  copy_density_discr :: "discretization option"
  copy_fine_order :: "int option"
  copy_qbx_order :: "int option"
  copy_fmm_order :: "order_arg option provided"
  copy_fmm_level_to_order :: "level_to_order option provided"
  copy_to_refined_connection :: "connection option"
  copy_expansion_factory :: "expansion_factory option"
  copy_target_association_tolerance :: "real option provided"
  copy_expansions_in_tree_have_extent :: "bool provided"
  copy_expansion_stick_out_factor :: "real provided"
  copy_max_leaf_refine_weight :: "int option"
  copy_box_extent_norm :: "string option"
  copy_from_sep_smaller_crit :: "string option"
  copy_tree_kind :: "string option"
  copy_use_target_specific_qbx :: "bool option provided"
  copy_geometry_data_inspector :: "'i option"
  copy_cost_model :: "cost_model option provided"
  copy_fmm_backend :: "string option"
  copy_use_fft :: "bool option"
  copy_debug :: "bool provided"
  copy_refined_for_global_qbx :: "bool provided"
  copy_target_stick_out_factor :: "real option provided"

definition no_overrides :: "'i qbx_copy_args" where
  "no_overrides =
     \<lparr> copy_density_discr = None,
       copy_fine_order = None,
       copy_qbx_order = None,
       copy_fmm_order = NotProvided,
       copy_fmm_level_to_order = NotProvided,
       copy_to_refined_connection = None,
       copy_expansion_factory = None,
       copy_target_association_tolerance = NotProvided,
       copy_expansions_in_tree_have_extent = NotProvided,
       copy_expansion_stick_out_factor = NotProvided,
       copy_max_leaf_refine_weight = None,
       copy_box_extent_norm = None,
       copy_from_sep_smaller_crit = None,
       copy_tree_kind = None,
       copy_use_target_specific_qbx = NotProvided,
       copy_geometry_data_inspector = None,
       copy_cost_model = NotProvided,
       copy_fmm_backend = None,
       copy_use_fft = None,
       copy_debug = NotProvided,
       copy_refined_for_global_qbx = NotProvided,
       copy_target_stick_out_factor = NotProvided \<rparr>"

text \<open>\<^verbatim>\<open>x if x is not _not_provided else y\<close>.\<close>

definition if_provided :: "'a provided \<Rightarrow> 'a \<Rightarrow> 'a" where
  "if_provided x y = (case x of NotProvided \<Rightarrow> y | Provided v \<Rightarrow> v)"

text \<open>
  The tolerance that \<^verbatim>\<open>copy\<close> passes on (lines 271 to 288): the alias when given, else the
  argument, else the attribute of \<^verbatim>\<open>self\<close>.
\<close>

definition copy_tolerance :: "'i qbx_source \<Rightarrow> 'i qbx_copy_args \<Rightarrow> real option" where
  "copy_tolerance self c =
     (case copy_target_stick_out_factor c of
        Provided t \<Rightarrow> t
      | NotProvided \<Rightarrow>
          if_provided (copy_target_association_tolerance c) (target_association_tolerance self))"

text \<open>
  The dictionary \<^verbatim>\<open>kwargs\<close> of lines 292 to 302, as the pair of the constructor's
  \<^verbatim>\<open>fmm_order\<close> and \<^verbatim>\<open>fmm_level_to_order\<close> arguments (a key that is absent leaves the
  constructor's default \<^verbatim>\<open>None\<close>).
\<close>

definition copy_kwargs ::
  "'i qbx_source \<Rightarrow> 'i qbx_copy_args \<Rightarrow> error + (order_arg option \<times> level_to_order option)" where
  "copy_kwargs self c =
     (case (copy_fmm_order c, copy_fmm_level_to_order c) of
        (Provided fo, Provided fl) \<Rightarrow>
          Inl (TypeError ''may not specify both fmm_order and fmm_level_to_order'')
      | (Provided fo, NotProvided) \<Rightarrow> Inr (fo, None)
      | (NotProvided, Provided fl) \<Rightarrow> Inr (None, fl)
      | (NotProvided, NotProvided) \<Rightarrow> Inr (None, Some (fmm_level_to_order self)))"

text \<open>
  The keyword arguments of the constructor call that ends \<^verbatim>\<open>copy\<close> (lines 306 to 357),
  for the \<^verbatim>\<open>kwargs\<close> pair given.
\<close>

definition copy_constructor_args ::
  "'i qbx_source \<Rightarrow> 'i qbx_copy_args \<Rightarrow> order_arg option \<Rightarrow> level_to_order option
     \<Rightarrow> 'i qbx_args" where
  "copy_constructor_args self c fo fl =
     \<lparr> arg_density_discr =
         py_or truthy_object (copy_density_discr c) (density_discr self),
       arg_fine_order =
         Some (case copy_fine_order c of Some v \<Rightarrow> v | None \<Rightarrow> fine_order self),
       arg_qbx_order =
         Some (case copy_qbx_order c of Some v \<Rightarrow> v | None \<Rightarrow> qbx_order self),
       arg_fmm_order = fo,
       arg_fmm_level_to_order = fl,
       arg_to_refined_connection =
         py_or_opt truthy_object (copy_to_refined_connection c) (to_refined_connection self),
       arg_expansion_factory =
         Some (py_or truthy_object (copy_expansion_factory c) (expansion_factory self)),
       arg_target_association_tolerance = Provided (copy_tolerance self c),
       arg_debug = if_provided (copy_debug c) (debug self),
       arg_refined_for_global_qbx =
         if_provided (copy_refined_for_global_qbx c) (refined_for_global_qbx self),
       arg_expansions_in_tree_have_extent =
         if_provided (copy_expansions_in_tree_have_extent c)
           (expansions_in_tree_have_extent self),
       arg_expansion_stick_out_factor =
         if_provided (copy_expansion_stick_out_factor c) (expansion_stick_out_factor self),
       arg_well_sep_is_n_away = well_sep_is_n_away self,
       arg_max_leaf_refine_weight =
         Some (py_or truthy_int (copy_max_leaf_refine_weight c) (max_leaf_refine_weight self)),
       arg_box_extent_norm =
         Some (py_or truthy_str (copy_box_extent_norm c) (box_extent_norm self)),
       arg_from_sep_smaller_crit =
         Some (py_or truthy_str (copy_from_sep_smaller_crit c) (from_sep_smaller_crit self)),
       arg_from_sep_smaller_min_nsources_cumul =
         Some (from_sep_smaller_min_nsources_cumul self),
       arg_tree_kind = py_or_opt truthy_str (copy_tree_kind c) (tree_kind self),
       arg_use_target_specific_qbx =
         if_provided (copy_use_target_specific_qbx c) (use_target_specific_qbx self),
       arg_geometry_data_inspector =
         py_or_opt truthy_object (copy_geometry_data_inspector c)
           (geometry_data_inspector self),
       arg_cost_model = if_provided (copy_cost_model c) (Some (cost_model self)),
       arg_fmm_backend = py_or truthy_str (copy_fmm_backend c) (fmm_backend self),
       arg_use_fft = py_or truthy_bool (copy_use_fft c) (use_fft self),
       arg_target_stick_out_factor = NotProvided \<rparr>"

definition qbx_copy :: "'i qbx_source \<Rightarrow> 'i qbx_copy_args \<Rightarrow> error + 'i qbx_source" where
  "qbx_copy self c =
     (if copy_target_stick_out_factor c \<noteq> NotProvided
           \<and> copy_target_association_tolerance c \<noteq> NotProvided
        then Inl (TypeError ''May not pass both target_association_tolerance and target_stick_out_factor.'')
      else
        (case copy_kwargs self c of
           Inl e \<Rightarrow> Inl e
         | Inr (fo, fl) \<Rightarrow> qbx_init (copy_constructor_args self c fo fl)))"


section \<open>\<^verbatim>\<open>UnregularizedLayerPotentialSource\<close>: constructor\<close>

record unregularized_source =
  unreg_density_discr :: discretization
  unreg_fmm_level_to_order :: level_to_order
  unreg_expansion_factory :: expansion_factory
  unreg_debug :: bool

text \<open>
  \<^verbatim>\<open>UnregularizedLayerPotentialSource.__init__\<close>; here the default of \<^verbatim>\<open>fmm_order\<close> is
  \<^verbatim>\<open>False\<close> and the conflict test is \<^verbatim>\<open>fmm_order is not False\<close>.
\<close>

definition unregularized_init ::
  "discretization \<Rightarrow> order_arg option \<Rightarrow> level_to_order option \<Rightarrow> expansion_factory option
     \<Rightarrow> bool \<Rightarrow> error + unregularized_source" where
  "unregularized_init dd fmm_order fl ef dbg =
     (if fmm_order \<noteq> Some OrderFalse \<and> fl \<noteq> None
        then Inl (TypeError ''may not specify both fmm_order and fmm_level_to_order'')
      else Inr
        \<lparr> unreg_density_discr = dd,
          unreg_fmm_level_to_order =
            (case fl of
               Some f \<Rightarrow> f
             | None \<Rightarrow>
                 (case fmm_order of
                    Some OrderFalse \<Rightarrow> LevelToOrderFalse
                  | Some (Order n) \<Rightarrow> ConstantOrder (Some n)
                  | None \<Rightarrow> ConstantOrder None)),
          unreg_expansion_factory =
            (case ef of None \<Rightarrow> DefaultExpansionFactory | Some f \<Rightarrow> f),
          unreg_debug = dbg \<rparr>)"

section \<open>What \<^verbatim>\<open>copy\<close> keeps and what it carries\<close>

text \<open>
  What \<^verbatim>\<open>copy\<close> promises for each attribute: without an override the attribute of
  \<^verbatim>\<open>self\<close> is kept; an override passed through the sentinel is carried as it is; an
  override of an argument whose default is \<^verbatim>\<open>None\<close> is carried when it is truthy. Nothing
  is said about a falsy override of such an argument.
\<close>

definition copy_postcondition :: "'i qbx_source \<Rightarrow> 'i qbx_copy_args \<Rightarrow> 'i qbx_source \<Rightarrow> bool" where
  "copy_postcondition self c s \<longleftrightarrow>
     (case copy_density_discr c of
        None \<Rightarrow> density_discr s = density_discr self | Some d \<Rightarrow> density_discr s = d)
   \<and> (case copy_fine_order c of
        None \<Rightarrow> fine_order s = fine_order self | Some v \<Rightarrow> fine_order s = v)
   \<and> (case copy_qbx_order c of
        None \<Rightarrow> qbx_order s = qbx_order self | Some v \<Rightarrow> qbx_order s = v)
   \<and> (case (copy_fmm_order c, copy_fmm_level_to_order c) of
        (NotProvided, NotProvided) \<Rightarrow> fmm_level_to_order s = fmm_level_to_order self
      | (NotProvided, Provided (Some f)) \<Rightarrow> fmm_level_to_order s = f
      | (NotProvided, Provided None) \<Rightarrow> fmm_level_to_order s = ConstantOrder None
      | (Provided (Some OrderFalse), _) \<Rightarrow> fmm_level_to_order s = LevelToOrderFalse
      | (Provided (Some (Order n)), _) \<Rightarrow> fmm_level_to_order s = ConstantOrder (Some n)
      | (Provided None, _) \<Rightarrow> fmm_level_to_order s = ConstantOrder None)
   \<and> (case (copy_target_stick_out_factor c, copy_target_association_tolerance c) of
        (NotProvided, NotProvided) \<Rightarrow>
          target_association_tolerance s = target_association_tolerance self
      | (NotProvided, Provided t) \<Rightarrow> target_association_tolerance s = t
      | (Provided t, _) \<Rightarrow> target_association_tolerance s = t)
   \<and> (case copy_fmm_backend c of
        None \<Rightarrow> fmm_backend s = fmm_backend self
      | Some b \<Rightarrow> b \<noteq> [] \<longrightarrow> fmm_backend s = b)
   \<and> (case copy_use_fft c of
        None \<Rightarrow> use_fft s = use_fft self
      | Some b \<Rightarrow> b \<longrightarrow> use_fft s = b)
   \<and> (case copy_to_refined_connection c of
        None \<Rightarrow> to_refined_connection s = to_refined_connection self
      | Some r \<Rightarrow> to_refined_connection s = Some r)
   \<and> (case copy_expansion_factory c of
        None \<Rightarrow> expansion_factory s = expansion_factory self
      | Some f \<Rightarrow> expansion_factory s = f)
   \<and> debug s = if_provided (copy_debug c) (debug self)
   \<and> refined_for_global_qbx s
        = if_provided (copy_refined_for_global_qbx c) (refined_for_global_qbx self)
   \<and> expansions_in_tree_have_extent s
        = if_provided (copy_expansions_in_tree_have_extent c)
            (expansions_in_tree_have_extent self)
   \<and> expansion_stick_out_factor s
        = if_provided (copy_expansion_stick_out_factor c) (expansion_stick_out_factor self)
   \<and> well_sep_is_n_away s = well_sep_is_n_away self
   \<and> (case copy_max_leaf_refine_weight c of
        None \<Rightarrow> max_leaf_refine_weight s = max_leaf_refine_weight self
      | Some w \<Rightarrow> w \<noteq> 0 \<longrightarrow> max_leaf_refine_weight s = w)
   \<and> (case copy_box_extent_norm c of
        None \<Rightarrow> box_extent_norm s = box_extent_norm self
      | Some n \<Rightarrow> n \<noteq> [] \<longrightarrow> box_extent_norm s = n)
   \<and> (case copy_from_sep_smaller_crit c of
        None \<Rightarrow> from_sep_smaller_crit s = from_sep_smaller_crit self
      | Some n \<Rightarrow> n \<noteq> [] \<longrightarrow> from_sep_smaller_crit s = n)
   \<and> from_sep_smaller_min_nsources_cumul s = from_sep_smaller_min_nsources_cumul self
   \<and> (case copy_tree_kind c of
        None \<Rightarrow> tree_kind s = tree_kind self
      | Some k \<Rightarrow> k \<noteq> [] \<longrightarrow> tree_kind s = Some k)
   \<and> use_target_specific_qbx s
        = if_provided (copy_use_target_specific_qbx c) (use_target_specific_qbx self)
   \<and> (case copy_geometry_data_inspector c of
        None \<Rightarrow> geometry_data_inspector s = geometry_data_inspector self
      | Some i \<Rightarrow> geometry_data_inspector s = Some i)
   \<and> (case copy_cost_model c of
        NotProvided \<Rightarrow> cost_model s = cost_model self
      | Provided None \<Rightarrow> cost_model s = CostModel
      | Provided (Some m) \<Rightarrow> cost_model s = m)"


subsection \<open>Example inputs\<close>

definition example_discr :: discretization where
  "example_discr = \<lparr> discr_id = 0, real_dtype = Float64, ambient_dim = 2, dim = 1, nnodes = 4 \<rparr>"

definition example_args :: "'i qbx_args" where
  "example_args =
     (default_args example_discr (Some 4))
       \<lparr> arg_qbx_order := Some 3, arg_fmm_order := Some (Order 5), arg_use_fft := True,
         arg_cost_model := Some (UserCostModel 7) \<rparr>"

definition example_source :: "'i qbx_source" where
  "example_source =
     \<lparr> density_discr = example_discr,
       fine_order = 4,
       qbx_order = 3,
       fmm_level_to_order = ConstantOrder (Some 5),
       target_association_tolerance = Some (1000 / 2 ^ 52),
       fmm_backend = ''sumpy'',
       use_fft = True,
       to_refined_connection = None,
       expansion_factory = DefaultExpansionFactory,
       debug = True,
       refined_for_global_qbx = False,
       expansions_in_tree_have_extent = True,
       expansion_stick_out_factor = 1 / 2,
       well_sep_is_n_away = 2,
       max_leaf_refine_weight = 64,
       box_extent_norm = ''l2'',
       from_sep_smaller_crit = ''precise_linf'',
       from_sep_smaller_min_nsources_cumul = 15,
       tree_kind = Some ''adaptive'',
       use_target_specific_qbx = None,
       geometry_data_inspector = None,
       cost_model = UserCostModel 7 \<rparr>"

definition example_overrides :: "'i qbx_copy_args" where
  "example_overrides =
     no_overrides \<lparr> copy_fine_order := Some 8, copy_fmm_backend := Some ''fmmlib'',
                    copy_debug := Provided False \<rparr>"


section \<open>Kernels and the fmmlib expansion wrangler\<close>

text \<open>
  The kernel classes the wrangler inspects: \<^verbatim>\<open>HelmholtzKernel(dim, helmholtz_k_name)\<close>,
  \<^verbatim>\<open>AxisTargetDerivative(axis, inner_kernel)\<close> and
  \<^verbatim>\<open>DirectionalSourceDerivative(inner_kernel, dir_vec_name)\<close>; every other kernel class is
  \<open>LaplaceKernel\<close> or \<open>OtherKernel\<close>.
\<close>

datatype kernel =
    LaplaceKernel nat
  | HelmholtzKernel nat string
  | AxisTargetDerivative nat kernel
  | DirectionalSourceDerivative kernel string
  | OtherKernel string

text \<open>
  The lists that the loop over \<^verbatim>\<open>out_kernels\<close> fills: \<^verbatim>\<open>k_names\<close> and
  \<^verbatim>\<open>source_deriv_names\<close> (appended to by the closure \<^verbatim>\<open>is_supported_helmknl\<close>),
  \<^verbatim>\<open>outputs\<close> (the tuples \<^verbatim>\<open>()\<close> and \<^verbatim>\<open>(axis,)\<close>, as lists) and \<^verbatim>\<open>ifgrad\<close>.
\<close>

record kernel_digest =
  k_names :: "string list"
  source_deriv_names :: "string option list"
  digest_outputs :: "nat list list"
  ifgrad :: bool

definition empty_digest :: kernel_digest where
  "empty_digest =
     \<lparr> k_names = [], source_deriv_names = [], digest_outputs = [], ifgrad = False \<rparr>"

text \<open>
  \<^verbatim>\<open>is_supported_helmknl\<close> (lines 138 to 148): it records whether the kernel is a
  directional source derivative, unwraps it, and accepts a Helmholtz kernel of dimension 3.
\<close>

definition is_supported_helmknl :: "kernel \<Rightarrow> kernel_digest \<Rightarrow> bool \<times> kernel_digest" where
  "is_supported_helmknl knl st =
     (let (knl', st') =
        (case knl of
           DirectionalSourceDerivative inner dir_vec_name \<Rightarrow>
             (inner, st \<lparr> source_deriv_names := source_deriv_names st @ [Some dir_vec_name] \<rparr>)
         | _ \<Rightarrow> (knl, st \<lparr> source_deriv_names := source_deriv_names st @ [None] \<rparr>))
      in case knl' of
           HelmholtzKernel d helmholtz_k_name \<Rightarrow>
             if d = 3 then (True, st' \<lparr> k_names := k_names st' @ [helmholtz_k_name] \<rparr>)
             else (False, st')
         | _ \<Rightarrow> (False, st'))"

definition unsupported_kernel :: error where
  "unsupported_kernel =
     NotImplementedError
       ''only the 3D Helmholtz kernel and its target derivatives are supported for now''"

text \<open>The loop of lines 152 to 162.\<close>

fun digest_out_kernels :: "kernel list \<Rightarrow> kernel_digest \<Rightarrow> error + kernel_digest" where
  "digest_out_kernels [] st = Inr st"
| "digest_out_kernels (out_knl # rest) st =
     (case is_supported_helmknl out_knl st of
        (True, st1) \<Rightarrow>
          digest_out_kernels rest (st1 \<lparr> digest_outputs := digest_outputs st1 @ [[]] \<rparr>)
      | (False, st1) \<Rightarrow>
          (case out_knl of
             AxisTargetDerivative axis inner \<Rightarrow>
               (case is_supported_helmknl inner st1 of
                  (True, st2) \<Rightarrow>
                    digest_out_kernels rest
                      (st2 \<lparr> digest_outputs := digest_outputs st2 @ [[axis]], ifgrad := True \<rparr>)
                | (False, st2) \<Rightarrow> Inl unsupported_kernel)
           | _ \<Rightarrow> Inl unsupported_kernel))"

text \<open>
  \<^verbatim>\<open>pytools.is_single_valued\<close> and \<^verbatim>\<open>pytools.single_valued\<close>: both raise \<^verbatim>\<open>ValueError\<close> on
  an empty iterable; the second asserts that all items equal the first and returns it.
\<close>

definition is_single_valued :: "'a list \<Rightarrow> error + bool" where
  "is_single_valued xs =
     (case xs of
        [] \<Rightarrow> Inl (ValueError ''empty iterable passed to single_valued'')
      | x # rest \<Rightarrow> Inr (list_all (\<lambda>y. y = x) rest))"

definition single_valued :: "'a list \<Rightarrow> error + 'a" where
  "single_valued xs =
     (case xs of
        [] \<Rightarrow> Inl (ValueError ''empty iterable passed to single_valued'')
      | x # rest \<Rightarrow> if list_all (\<lambda>y. y = x) rest then Inr x else Inl AssertionError)"

text \<open>Subscripting a dictionary with a string key.\<close>

definition dict_get :: "(string \<rightharpoonup> 'v) \<Rightarrow> string \<Rightarrow> error + 'v" where
  "dict_get d k = (case d k of None \<Rightarrow> Inl (KeyError k) | Some v \<Rightarrow> Inr v)"

text \<open>
  The wrangler object: the attributes set by \<^verbatim>\<open>QBXFMMLibExpansionWrangler.__init__\<close> and the
  arguments it hands to the constructor of its base class (\<^verbatim>\<open>helmholtz_k\<close>, \<^verbatim>\<open>dipole_vec\<close>,
  \<^verbatim>\<open>nterms\<close>, \<^verbatim>\<open>ifgrad\<close>). The base class belongs to the FMM substrate; its constructor is
  taken to store them.
\<close>

record ('g, 'k, 'd) fmmlib_wrangler =
  wrangler_geo_data :: 'g
  wrangler_qbx_order :: int
  wrangler_outputs :: "nat list list"
  wrangler_level_orders :: "int list"
  wrangler_helmholtz_k :: 'k
  wrangler_dipole_vec :: "'d option"
  wrangler_nterms :: int
  wrangler_ifgrad :: bool

text \<open>
  \<^verbatim>\<open>QBXFMMLibExpansionWrangler.__init__\<close> (lines 117 to 203). \<open>out_kernels\<close> is
  \<^verbatim>\<open>self.code.out_kernels\<close> and \<open>nlevels\<close> is \<^verbatim>\<open>self.geo_data.tree().nlevels\<close>. The
  \<^verbatim>\<open>assert single_valued(self.level_orders)\<close> of line 184 also fails when the common order
  is 0, which is falsy. Where \<^verbatim>\<open>source_deriv_names[0]\<close> is read (line 169) the list is not
  empty: \<^verbatim>\<open>is_single_valued\<close> has raised otherwise.
\<close>

definition fmmlib_wrangler_init ::
  "kernel list \<Rightarrow> 'g \<Rightarrow> nat \<Rightarrow> int \<Rightarrow> (nat \<Rightarrow> int) \<Rightarrow> (string \<rightharpoonup> 'd) \<Rightarrow> (string \<rightharpoonup> 'k)
     \<Rightarrow> error + ('g, 'k, 'd) fmmlib_wrangler" where
  "fmmlib_wrangler_init out_kernels geo_data nlevels qbx_ord level_to_order
       source_extra_kwargs kernel_extra_kwargs =
     (case digest_out_kernels out_kernels empty_digest of
        Inl e \<Rightarrow> Inl e
      | Inr dg \<Rightarrow>
     (case is_single_valued (source_deriv_names dg) of
        Inl e \<Rightarrow> Inl e
      | Inr False \<Rightarrow>
          Inl (ValueError
            ''not all kernels passed are the same inwhether they represent a source derivative'')
      | Inr True \<Rightarrow>
     (case single_valued (k_names dg) of
        Inl e \<Rightarrow> Inl e
      | Inr k_name \<Rightarrow>
     (case dict_get kernel_extra_kwargs k_name of
        Inl e \<Rightarrow> Inl e
      | Inr helmholtz_k \<Rightarrow>
     (let level_orders = map level_to_order [0 ..< nlevels] in
      case single_valued level_orders of
        Inl e \<Rightarrow> Inl e
      | Inr common_order \<Rightarrow>
      if common_order = 0 then Inl AssertionError
      else
     (case (case hd (source_deriv_names dg) of
              None \<Rightarrow> Inr None
            | Some source_deriv_name \<Rightarrow>
                map_sum id Some (dict_get source_extra_kwargs source_deriv_name)) of
        Inl e \<Rightarrow> Inl e
      | Inr dipole_vec \<Rightarrow>
          Inr \<lparr> wrangler_geo_data = geo_data,
                wrangler_qbx_order = qbx_ord,
                wrangler_outputs = digest_outputs dg,
                wrangler_level_orders = level_orders,
                wrangler_helmholtz_k = helmholtz_k,
                wrangler_dipole_vec = dipole_vec,
                wrangler_nterms = level_to_order 0,
                wrangler_ifgrad = ifgrad dg \<rparr>))))))"

text \<open>
  The code containers that \<^verbatim>\<open>expansion_wrangler_code_container\<close> chooses between. A
  factory \<^verbatim>\<open>partial(cls, fmm_kernel)\<close> is the pair of the class and the kernel.
\<close>

datatype 'c code_container =
    QBXSumpyExpansionWranglerCodeContainer
      "'c \<times> kernel" "'c \<times> kernel" "'c \<times> kernel" "kernel list" bool
  | QBXFMMLibExpansionWranglerCodeContainer
      "'c \<times> kernel" "'c \<times> kernel" "'c \<times> kernel" "kernel list"

text \<open>
  \<^verbatim>\<open>expansion_wrangler_code_container\<close> (lines 626 to 655). The two lookups of the expansion
  factory are the substrate's and may raise.
\<close>

definition expansion_wrangler_code_container ::
  "'i qbx_source \<Rightarrow> (expansion_factory \<Rightarrow> kernel \<Rightarrow> error + 'c)
     \<Rightarrow> (expansion_factory \<Rightarrow> kernel \<Rightarrow> error + 'c) \<Rightarrow> kernel \<Rightarrow> kernel list
     \<Rightarrow> error + 'c code_container" where
  "expansion_wrangler_code_container self get_multipole_expansion_class
       get_local_expansion_class fmm_kernel out_kernels =
     (case get_multipole_expansion_class (expansion_factory self) fmm_kernel of
        Inl e \<Rightarrow> Inl e
      | Inr mpole_expn_class \<Rightarrow>
     (case get_local_expansion_class (expansion_factory self) fmm_kernel of
        Inl e \<Rightarrow> Inl e
      | Inr local_expn_class \<Rightarrow>
          if fmm_backend self = ''sumpy'' then
            Inr (QBXSumpyExpansionWranglerCodeContainer
                   (mpole_expn_class, fmm_kernel) (local_expn_class, fmm_kernel)
                   (local_expn_class, fmm_kernel) out_kernels (use_fft self))
          else if fmm_backend self = ''fmmlib'' then
            Inr (QBXFMMLibExpansionWranglerCodeContainer
                   (mpole_expn_class, fmm_kernel) (local_expn_class, fmm_kernel)
                   (local_expn_class, fmm_kernel) out_kernels)
          else Inl (ValueError (''invalid FMM backend: '' @ fmm_backend self))))"

text \<open>
  The kernels the claim names (the 3D Helmholtz kernel or an axis target derivative of it),
  and the kernels the loop accepts: those, and the same with the Helmholtz kernel wrapped in
  a directional source derivative.
\<close>

fun helmholtz3_or_target_derivative :: "kernel \<Rightarrow> bool" where
  "helmholtz3_or_target_derivative (HelmholtzKernel d k) = (d = 3)"
| "helmholtz3_or_target_derivative (AxisTargetDerivative axis (HelmholtzKernel d k)) = (d = 3)"
| "helmholtz3_or_target_derivative knl = False"

fun helmholtz3_or_source_derivative :: "kernel \<Rightarrow> bool" where
  "helmholtz3_or_source_derivative (HelmholtzKernel d k) = (d = 3)"
| "helmholtz3_or_source_derivative (DirectionalSourceDerivative (HelmholtzKernel d k) v) = (d = 3)"
| "helmholtz3_or_source_derivative knl = False"

fun fmmlib_accepts :: "kernel \<Rightarrow> bool" where
  "fmmlib_accepts (AxisTargetDerivative axis inner) = helmholtz3_or_source_derivative inner"
| "fmmlib_accepts knl = helmholtz3_or_source_derivative knl"

definition double_layer_helmholtz :: kernel where
  "double_layer_helmholtz = DirectionalSourceDerivative (HelmholtzKernel 3 ''k'') ''dsource_vec''"

definition example_level_to_order :: "nat \<Rightarrow> int" where
  "example_level_to_order level = 5"

definition example_source_kwargs :: "string \<rightharpoonup> nat" where
  "example_source_kwargs = [''dsource_vec'' \<mapsto> 1]"

definition example_kernel_kwargs :: "string \<rightharpoonup> nat" where
  "example_kernel_kwargs = [''k'' \<mapsto> 2]"


section \<open>Instructions and the gathering of target discretizations\<close>

text \<open>
  One output of an instruction: its name, the name of its target, the forced limit
  (\<^verbatim>\<open>None\<close> or an integer side) and the index of its kernel.
\<close>

record insn_output =
  output_name :: string
  target_name :: string
  qbx_forced_limit :: "int option"
  kernel_index :: nat

record instruction =
  outputs :: "insn_output list"
  kernels :: "kernel list"

text \<open>
  What \<^verbatim>\<open>bound_expr.places.get_geometry\<close> returns: a layer potential source (an instance of
  \<^verbatim>\<open>LayerPotentialSourceBase\<close>, of which the source reads \<^verbatim>\<open>density_discr\<close>) or a target
  discretization.
\<close>

datatype geometry =
    LayerPotentialSource discretization
  | TargetDiscretization discretization

fun geometry_discr :: "geometry \<Rightarrow> discretization" where
  "geometry_discr (LayerPotentialSource dd) = dd"
| "geometry_discr (TargetDiscretization d) = d"

type_synonym target_key = "string \<times> int option"

type_synonym target_spec = "(discretization \<times> int) list"

definition output_key :: "insn_output \<Rightarrow> target_key" where
  "output_key out = (target_name out, qbx_forced_limit out)"

text \<open>Lines 676 to 678 and 889 to 891: a forced limit of \<^verbatim>\<open>None\<close> becomes the side 0.\<close>

definition normalized_side :: "int option \<Rightarrow> int" where
  "normalized_side limit = (case limit of None \<Rightarrow> 0 | Some s \<Rightarrow> s)"

text \<open>
  The loop of \<^verbatim>\<open>get_target_discrs_and_qbx_sides\<close> (lines 666 to 681), threading the
  dictionary \<^verbatim>\<open>target_name_and_side_to_number\<close> and the list
  \<^verbatim>\<open>target_discrs_and_qbx_sides\<close>. The lookup of the geometry is the caller's and may raise.
\<close>

fun gather_targets ::
  "(string \<Rightarrow> error + geometry) \<Rightarrow> insn_output list \<Rightarrow> (target_key \<rightharpoonup> nat) \<Rightarrow> target_spec
     \<Rightarrow> error + ((target_key \<rightharpoonup> nat) \<times> target_spec)" where
  "gather_targets get_geometry [] numbering discrs = Inr (numbering, discrs)"
| "gather_targets get_geometry (out # rest) numbering discrs =
     (if numbering (output_key out) \<noteq> None
        then gather_targets get_geometry rest numbering discrs
      else
        (case get_geometry (target_name out) of
           Inl e \<Rightarrow> Inl e
         | Inr g \<Rightarrow>
             gather_targets get_geometry rest
               (numbering (output_key out \<mapsto> length discrs))
               (discrs @ [(geometry_discr g, normalized_side (qbx_forced_limit out))])))"

definition get_target_discrs_and_qbx_sides ::
  "(string \<Rightarrow> error + geometry) \<Rightarrow> instruction
     \<Rightarrow> error + ((target_key \<rightharpoonup> nat) \<times> target_spec)" where
  "get_target_discrs_and_qbx_sides get_geometry insn =
     gather_targets get_geometry (outputs insn) Map.empty []"

text \<open>The distinct elements of a list, in the order of their first occurrence.\<close>

fun first_occurrences :: "'a list \<Rightarrow> 'a list" where
  "first_occurrences [] = []"
| "first_occurrences (x # xs) = x # first_occurrences (filter (\<lambda>y. y \<noteq> x) xs)"

text \<open>
  The target list that belongs to a list of keys: each key's geometry, reduced to its
  discretization, with the normalized side.
\<close>

definition key_entry ::
  "(string \<Rightarrow> error + geometry) \<Rightarrow> target_key \<Rightarrow> (discretization \<times> int) \<Rightarrow> bool" where
  "key_entry get_geometry key entry \<longleftrightarrow>
     (case get_geometry (fst key) of
        Inl e \<Rightarrow> False
      | Inr g \<Rightarrow> entry = (geometry_discr g, normalized_side (snd key)))"

text \<open>
  The invariant of the loop: \<open>ks\<close> lists the keys met so far, without repetition; the
  dictionary maps exactly these keys, each to its position in \<open>ks\<close>; and the target list has
  at that position the entry that belongs to the key.
\<close>

definition gathered ::
  "(string \<Rightarrow> error + geometry) \<Rightarrow> target_key list \<Rightarrow> (target_key \<rightharpoonup> nat) \<Rightarrow> target_spec
     \<Rightarrow> bool" where
  "gathered get_geometry ks numbering discrs \<longleftrightarrow>
     distinct ks \<and> length discrs = length ks \<and> dom numbering = set ks
     \<and> (\<forall>i<length ks. numbering (ks ! i) = Some i
                          \<and> key_entry get_geometry (ks ! i) (discrs ! i))"

subsection \<open>Example inputs\<close>

definition example_target :: discretization where
  "example_target =
     \<lparr> discr_id = 1, real_dtype = Float64, ambient_dim = 2, dim = 1, nnodes = 3 \<rparr>"

definition example_places :: "string \<Rightarrow> error + geometry" where
  "example_places name =
     (if name = ''src'' then Inr (LayerPotentialSource example_discr)
      else if name = ''tgt'' then Inr (TargetDiscretization example_target)
      else Inl (KeyError name))"

definition example_outputs :: "insn_output list" where
  "example_outputs =
     [\<lparr> output_name = ''a'', target_name = ''tgt'', qbx_forced_limit = None, kernel_index = 0 \<rparr>,
      \<lparr> output_name = ''b'', target_name = ''src'', qbx_forced_limit = Some 1, kernel_index = 0 \<rparr>,
      \<lparr> output_name = ''c'', target_name = ''tgt'', qbx_forced_limit = None, kernel_index = 1 \<rparr>]"

definition example_insn :: instruction where
  "example_insn =
     \<lparr> outputs = example_outputs,
       kernels = [HelmholtzKernel 3 ''k'', AxisTargetDerivative 0 (HelmholtzKernel 3 ''k'')] \<rparr>"

definition example_numbering :: "target_key \<rightharpoonup> nat" where
  "example_numbering = [(''tgt'', None) \<mapsto> 0, (''src'', Some 1) \<mapsto> 1]"

text \<open>
  Two outputs on the same target, one with the forced limit \<^verbatim>\<open>None\<close> and one with 0.
\<close>

definition duplicate_insn :: instruction where
  "duplicate_insn =
     \<lparr> outputs =
         [\<lparr> output_name = ''a'', target_name = ''tgt'', qbx_forced_limit = None,
            kernel_index = 0 \<rparr>,
          \<lparr> output_name = ''b'', target_name = ''tgt'', qbx_forced_limit = Some 0,
            kernel_index = 0 \<rparr>],
       kernels = [HelmholtzKernel 3 ''k''] \<rparr>"

definition duplicate_numbering :: "target_key \<rightharpoonup> nat" where
  "duplicate_numbering = [(''tgt'', None) \<mapsto> 0, (''tgt'', Some 0) \<mapsto> 1]"


section \<open>The memoized geometry accessor\<close>

text \<open>
  A \<^verbatim>\<open>QBXFMMGeometryData\<close> object: its identity and the arguments it was constructed from
  (the target specification, the tolerance, the tree kind and the debug flag of the source).
\<close>

record geometry_data =
  geo_id :: nat
  geo_targets :: target_spec
  geo_tolerance :: "real option"
  geo_tree_kind :: "string option"
  geo_debug :: bool

text \<open>What an evaluation does that the claims speak of, in the order in which it happens.\<close>

datatype event =
    GeometryBuilt target_spec
  | InspectorCalled
  | DriverCalled

text \<open>
  The mutable state behind one source object: the dictionary of the memoized accessor, the
  identity that the next new object gets, and the record of events.
\<close>

record session =
  geometry_cache :: "target_spec \<rightharpoonup> geometry_data"
  next_object_id :: nat
  log :: "event list"

definition empty_session :: session where
  "empty_session = \<lparr> geometry_cache = Map.empty, next_object_id = 0, log = [] \<rparr>"

text \<open>
  Modelled from the spec: the constructor of \<^verbatim>\<open>QBXFMMGeometryData\<close> lives in
  \<^verbatim>\<open>pytential.qbx.geometry\<close>, which is not among the sources. It yields a new object each
  time it runs (section 3: the geometry data is an immutable bundle for one pair of source
  and target set); the body of \<^verbatim>\<open>qbx_fmm_geometry_data\<close> (lines 515 to 519) gives it the
  target specification and the source's tolerance, tree kind and debug flag.
\<close>

definition new_geometry_data ::
  "'i qbx_source \<Rightarrow> target_spec \<Rightarrow> session \<Rightarrow> geometry_data \<times> session" where
  "new_geometry_data self spec st =
     (\<lparr> geo_id = next_object_id st,
        geo_targets = spec,
        geo_tolerance = target_association_tolerance self,
        geo_tree_kind = tree_kind self,
        geo_debug = debug self \<rparr>,
      st \<lparr> next_object_id := Suc (next_object_id st),
           log := log st @ [GeometryBuilt spec] \<rparr>)"

text \<open>
  Modelled from the spec: the decorator \<^verbatim>\<open>memoize_method\<close> on \<^verbatim>\<open>qbx_fmm_geometry_data\<close>
  (line 502) is imported from a library that is not among the sources. Section 9 describes
  it as an explicit cache map keyed by a value-equality key, with an accessor that either
  returns a cached value or computes and inserts exactly once per key; section 3 names the
  key, the tuple of target discretizations and sides.
\<close>

definition qbx_fmm_geometry_data ::
  "'i qbx_source \<Rightarrow> target_spec \<Rightarrow> session \<Rightarrow> geometry_data \<times> session" where
  "qbx_fmm_geometry_data self spec st =
     (case geometry_cache st spec of
        Some geo_data \<Rightarrow> (geo_data, st)
      | None \<Rightarrow>
          (case new_geometry_data self spec st of
             (geo_data, st') \<Rightarrow>
               (geo_data, st' \<lparr> geometry_cache := (geometry_cache st') (spec \<mapsto> geo_data) \<rparr>)))"

text \<open>A run of requests to the accessor, for the target specifications listed.\<close>

fun geometry_requests :: "'i qbx_source \<Rightarrow> target_spec list \<Rightarrow> session \<Rightarrow> session" where
  "geometry_requests self [] st = st"
| "geometry_requests self (spec # specs) st =
     geometry_requests self specs (snd (qbx_fmm_geometry_data self spec st))"

text \<open>
  A session is well formed when every cached object was built for the key it is stored
  under, as the accessor does it.
\<close>

definition wf_session :: "session \<Rightarrow> bool" where
  "wf_session st \<longleftrightarrow> (\<forall>spec g. geometry_cache st spec = Some g \<longrightarrow> geo_targets g = spec)"

definition driver_calls :: "session \<Rightarrow> nat" where
  "driver_calls st = length (filter (\<lambda>e. e = DriverCalled) (log st))"


section \<open>Evaluation through the FMM\<close>

text \<open>
  The accessors of a geometry object that the evaluation reads. They belong to
  \<^verbatim>\<open>pytential.qbx.geometry\<close> and are taken as given: the target association
  (\<^verbatim>\<open>user_target_to_center()\<close>, an integer per target), \<^verbatim>\<open>ncenters\<close>,
  \<^verbatim>\<open>target_info().target_discr_starts\<close> and the constant \<^verbatim>\<open>target_state.FAILED\<close>.
\<close>

record geometry_accessors =
  user_target_to_center :: "geometry_data \<Rightarrow> int list"
  ncenters :: "geometry_data \<Rightarrow> nat"
  target_discr_starts :: "geometry_data \<Rightarrow> nat list"
  target_state_FAILED :: int

text \<open>
  What the FMM path calls outside this class, each call possibly raising: the lookup of a
  geometry, the evaluation of the strengths (line 710), \<^verbatim>\<open>get_fmm_kernel\<close>, the dtype and
  the extra keyword arguments (lines 714 to 719), the two lookups of the expansion factory,
  and \<^verbatim>\<open>get_wrangler\<close> of the chosen code container.
\<close>

record ('s, 'a, 'c, 'w) fmm_env =
  places_get_geometry :: "string \<Rightarrow> error + geometry"
  evaluate_strengths :: "error + 's"
  get_fmm_kernel :: "kernel list \<Rightarrow> error + kernel"
  get_fmm_extra_kwargs :: "geometry_data \<Rightarrow> error + 'a"
  get_multipole_expansion_class :: "expansion_factory \<Rightarrow> kernel \<Rightarrow> error + 'c"
  get_local_expansion_class :: "expansion_factory \<Rightarrow> kernel \<Rightarrow> error + 'c"
  get_wrangler :: "'c code_container \<Rightarrow> geometry_data \<Rightarrow> 'a \<Rightarrow> error + 'w"
  fmm_geometry :: geometry_accessors

text \<open>
  A value assigned to an output name: the integer placeholder, or an array of potential
  values. The FMM path returns either the bare list of placeholder assignments (line 748) or
  the pair of the assignments and the driver's extra outputs (line 768).
\<close>

datatype 'v potential_value = IntValue int | ArrayValue "'v list"

datatype ('v, 'x) fmm_outcome =
    Placeholders "(string \<times> 'v potential_value) list"
  | Potentials "(string \<times> 'v potential_value) list" 'x

text \<open>
  The call \<^verbatim>\<open>get_wrangler(**get_wrangler_args)\<close> of lines 735 and 736. The arguments include
  the keyword \<^verbatim>\<open>_use_target_specific_qbx\<close> (line 729), which the method of the fmmlib code
  container (\<^verbatim>\<open>fmmlib.py\<close>, lines 52 to 60) does not accept: on that container the call
  raises. The method of the sumpy code container is not among the sources and is taken from
  the environment.
\<close>

definition call_get_wrangler ::
  "('s, 'a, 'c, 'w) fmm_env \<Rightarrow> 'c code_container \<Rightarrow> geometry_data \<Rightarrow> 'a \<Rightarrow> error + 'w" where
  "call_get_wrangler env code geo_data kwargs =
     (case code of
        QBXSumpyExpansionWranglerCodeContainer mpole local qbx_local out_kernels fft \<Rightarrow>
          get_wrangler env code geo_data kwargs
      | QBXFMMLibExpansionWranglerCodeContainer mpole local qbx_local out_kernels \<Rightarrow>
          Inl (TypeError
            ''get_wrangler() got an unexpected keyword argument _use_target_specific_qbx''))"

text \<open>Lines 710 to 736: everything between the geometry and the test for failed targets.\<close>

definition fmm_setup ::
  "'i qbx_source \<Rightarrow> ('s, 'a, 'c, 'w) fmm_env \<Rightarrow> instruction \<Rightarrow> geometry_data
     \<Rightarrow> error + ('s \<times> kernel \<times> 'a \<times> 'w)" where
  "fmm_setup self env insn geo_data =
     (case evaluate_strengths env of
        Inl e \<Rightarrow> Inl e
      | Inr strengths \<Rightarrow>
     (case get_fmm_kernel env (kernels insn) of
        Inl e \<Rightarrow> Inl e
      | Inr fmm_kernel \<Rightarrow>
     (case get_fmm_extra_kwargs env geo_data of
        Inl e \<Rightarrow> Inl e
      | Inr kwargs \<Rightarrow>
     (case expansion_wrangler_code_container self (get_multipole_expansion_class env)
             (get_local_expansion_class env) fmm_kernel (kernels insn) of
        Inl e \<Rightarrow> Inl e
      | Inr code \<Rightarrow>
     (case call_get_wrangler env code geo_data kwargs of
        Inl e \<Rightarrow> Inl e
      | Inr wrangler \<Rightarrow> Inr (strengths, fmm_kernel, kwargs, wrangler))))))"

text \<open>Lines 739 and 740: whether any target of the association is in the state FAILED.\<close>

definition has_failed_targets :: "geometry_accessors \<Rightarrow> geometry_data \<Rightarrow> bool" where
  "has_failed_targets acc geo_data =
     list_ex (\<lambda>c. c = target_state_FAILED acc) (user_target_to_center acc geo_data)"

text \<open>
  The inspection hook (lines 745 and 746): without a hook the FMM is performed; with one,
  its answer decides.
\<close>

definition geometry_inspection ::
  "(instruction \<Rightarrow> geometry_data \<Rightarrow> bool) qbx_source \<Rightarrow> instruction \<Rightarrow> geometry_data
     \<Rightarrow> session \<Rightarrow> bool \<times> session" where
  "geometry_inspection self insn geo_data st =
     (case geometry_data_inspector self of
        None \<Rightarrow> (True, st)
      | Some inspector \<Rightarrow>
          (inspector insn geo_data, st \<lparr> log := log st @ [InspectorCalled] \<rparr>))"

definition zero_placeholders :: "instruction \<Rightarrow> (string \<times> 'v potential_value) list" where
  "zero_placeholders insn = map (\<lambda>out. (output_name out, IntValue 0)) (outputs insn)"

text \<open>
  \<^verbatim>\<open>slice(*starts[n:n+2])\<close> applied to an array: with two bounds the elements from the first
  to before the second, with one bound the elements before it; with none \<^verbatim>\<open>slice\<close> raises.
\<close>

definition target_slice :: "nat list \<Rightarrow> nat \<Rightarrow> error + (nat \<times> nat)" where
  "target_slice starts n =
     (case take 2 (drop n starts) of
        [] \<Rightarrow> Inl (TypeError ''slice expected at least 1 argument, got 0'')
      | [stop] \<Rightarrow> Inr (0, stop)
      | start # stop # others \<Rightarrow> Inr (start, stop))"

definition array_slice :: "nat \<times> nat \<Rightarrow> 'v list \<Rightarrow> 'v list" where
  "array_slice bounds xs = drop (fst bounds) (take (snd bounds) xs)"

text \<open>The body of the loop of lines 759 to 766, for one output.\<close>

definition output_potential ::
  "(target_key \<rightharpoonup> nat) \<Rightarrow> nat list \<Rightarrow> 'v list list \<Rightarrow> insn_output
     \<Rightarrow> error + (string \<times> 'v potential_value)" where
  "output_potential numbering starts all_potentials out =
     (case numbering (output_key out) of
        None \<Rightarrow> Inl (KeyError (target_name out))
      | Some target_side_number \<Rightarrow>
     (case target_slice starts target_side_number of
        Inl e \<Rightarrow> Inl e
      | Inr bounds \<Rightarrow>
          if kernel_index out < length all_potentials
          then Inr (output_name out,
                    ArrayValue (array_slice bounds (all_potentials ! kernel_index out)))
          else Inl IndexError))"

fun output_potentials ::
  "(target_key \<rightharpoonup> nat) \<Rightarrow> nat list \<Rightarrow> 'v list list \<Rightarrow> insn_output list
     \<Rightarrow> error + (string \<times> 'v potential_value) list" where
  "output_potentials numbering starts all_potentials [] = Inr []"
| "output_potentials numbering starts all_potentials (out # rest) =
     (case output_potential numbering starts all_potentials out of
        Inl e \<Rightarrow> Inl e
      | Inr r \<Rightarrow>
          (case output_potentials numbering starts all_potentials rest of
             Inl e \<Rightarrow> Inl e
           | Inr rs \<Rightarrow> Inr (r # rs)))"

text \<open>
  \<^verbatim>\<open>exec_compute_potential_insn_fmm\<close> (lines 685 to 768). The driver is the argument
  \<^verbatim>\<open>fmm_driver\<close>; its invocation is recorded in the session before it runs.
\<close>

definition exec_compute_potential_insn_fmm ::
  "(instruction \<Rightarrow> geometry_data \<Rightarrow> bool) qbx_source \<Rightarrow> ('s, 'a, 'c, 'w) fmm_env \<Rightarrow> instruction
     \<Rightarrow> ('w \<Rightarrow> 's \<Rightarrow> geometry_data \<Rightarrow> kernel \<Rightarrow> 'a \<Rightarrow> error + ('v list list \<times> 'x))
     \<Rightarrow> session \<Rightarrow> (error + ('v, 'x) fmm_outcome) \<times> session" where
  "exec_compute_potential_insn_fmm self env insn fmm_driver st =
     (case get_target_discrs_and_qbx_sides (places_get_geometry env) insn of
        Inl e \<Rightarrow> (Inl e, st)
      | Inr (numbering, target_discrs_and_qbx_sides) \<Rightarrow>
     (case qbx_fmm_geometry_data self target_discrs_and_qbx_sides st of
        (geo_data, st1) \<Rightarrow>
     (case fmm_setup self env insn geo_data of
        Inl e \<Rightarrow> (Inl e, st1)
      | Inr (strengths, fmm_kernel, kwargs, wrangler) \<Rightarrow>
      if has_failed_targets (fmm_geometry env) geo_data
        then (Inl (RuntimeError ''geometry has failed targets''), st1)
      else
     (case geometry_inspection self insn geo_data st1 of
        (False, st2) \<Rightarrow> (Inr (Placeholders (zero_placeholders insn)), st2)
      | (True, st2) \<Rightarrow>
     (case fmm_driver wrangler strengths geo_data fmm_kernel kwargs of
        Inl e \<Rightarrow> (Inl e, st2 \<lparr> log := log st2 @ [DriverCalled] \<rparr>)
      | Inr (all_potentials_on_every_target, extra_outputs) \<Rightarrow>
     (case output_potentials numbering (target_discr_starts (fmm_geometry env) geo_data)
             all_potentials_on_every_target (outputs insn) of
        Inl e \<Rightarrow> (Inl e, st2 \<lparr> log := log st2 @ [DriverCalled] \<rparr>)
      | Inr result \<Rightarrow>
          (Inr (Potentials result extra_outputs),
           st2 \<lparr> log := log st2 @ [DriverCalled] \<rparr>)))))))"

subsection \<open>Example inputs\<close>

definition example_accessors :: "int list \<Rightarrow> geometry_accessors" where
  "example_accessors association =
     \<lparr> user_target_to_center = (\<lambda>geo_data. association),
       ncenters = (\<lambda>geo_data. 8),
       target_discr_starts = (\<lambda>geo_data. [0, 3, 7]),
       target_state_FAILED = - 2 \<rparr>"

definition example_fmm_env :: "int list \<Rightarrow> (unit, unit, nat, unit) fmm_env" where
  "example_fmm_env association =
     \<lparr> places_get_geometry = example_places,
       evaluate_strengths = Inr (),
       get_fmm_kernel = (\<lambda>ks. Inr (HelmholtzKernel 3 ''k'')),
       get_fmm_extra_kwargs = (\<lambda>geo_data. Inr ()),
       get_multipole_expansion_class = (\<lambda>factory knl. Inr 0),
       get_local_expansion_class = (\<lambda>factory knl. Inr 1),
       get_wrangler = (\<lambda>code geo_data kwargs. Inr ()),
       fmm_geometry = example_accessors association \<rparr>"

definition example_driver ::
  "unit \<Rightarrow> unit \<Rightarrow> geometry_data \<Rightarrow> kernel \<Rightarrow> unit \<Rightarrow> error + (nat list list \<times> unit)" where
  "example_driver wrangler strengths geo_data knl kwargs =
     Inr ([[10, 11, 12, 13, 14, 15, 16], [20, 21, 22, 23, 24, 25, 26]], ())"

definition veto_inspector :: "instruction \<Rightarrow> geometry_data \<Rightarrow> bool" where
  "veto_inspector insn geo_data = False"

definition example_geometry :: geometry_data where
  "example_geometry =
     \<lparr> geo_id = 0,
       geo_targets = [(example_target, 0), (example_discr, 1)],
       geo_tolerance = Some (1000 / 2 ^ 52),
       geo_tree_kind = Some ''adaptive'',
       geo_debug = True \<rparr>"

definition example_session :: session where
  "example_session =
     \<lparr> geometry_cache =
         [[(example_target, 0), (example_discr, 1)] \<mapsto> example_geometry],
       next_object_id = 1,
       log = [GeometryBuilt [(example_target, 0), (example_discr, 1)]] \<rparr>"


section \<open>Direct evaluation\<close>

text \<open>
  What the direct path calls outside this class, each call possibly raising: the lookup of a
  target discretization, the preparation of lines 835 to 854 (appliers, kernel arguments,
  strengths, expansion radii and centers), the layer potential applier for the source's own
  nodes and a side, the point-to-point sum, and the applier that corrects the sum on the
  targets that have a center. The last two fields are the contents of the two arrays that
  \<^verbatim>\<open>cl.array.empty\<close> and \<^verbatim>\<open>cl.array.empty_like\<close> return before they are written.
\<close>

record 'v direct_env =
  get_discretization :: "string \<Rightarrow> error + discretization"
  direct_preparation :: "error + unit"
  lpot_applier :: "discretization \<Rightarrow> int \<Rightarrow> error + 'v list list"
  p2p :: "discretization \<Rightarrow> error + 'v list list"
  lpot_applier_on_tgt_subset ::
    "discretization \<Rightarrow> geometry_data \<Rightarrow> int list \<Rightarrow> int list \<Rightarrow> 'v list list
       \<Rightarrow> error + 'v list list"
  direct_geometry :: geometry_accessors
  uninitialized_count :: int
  uninitialized_numbers :: "nat \<Rightarrow> int"

text \<open>
  The scan kernel of \<^verbatim>\<open>get_qbx_target_numberer\<close> (lines 813 to 824), run over the array in
  index order: \<^verbatim>\<open>item\<close> is the inclusive prefix sum of \<^verbatim>\<open>tgt_to_qbx_center[i] >= 0 ? 1 : 0\<close>
  and \<^verbatim>\<open>prev_item\<close> the sum before it. The state is the pair of \<^verbatim>\<open>qbx_tgt_number\<close> and
  \<^verbatim>\<open>count\<close>. The sums are at most the array's length, so 32 bit integers do not wrap.
\<close>

fun qbx_target_numberer_scan ::
  "int list \<Rightarrow> nat \<Rightarrow> int \<Rightarrow> int list \<times> int \<Rightarrow> int list \<times> int" where
  "qbx_target_numberer_scan [] i prev_item (qbx_tgt_number, count) = (qbx_tgt_number, count)"
| "qbx_target_numberer_scan (center # rest) i prev_item (qbx_tgt_number, count) =
     (let item = prev_item + (if center \<ge> 0 then 1 else 0) in
      qbx_target_numberer_scan rest (Suc i) item
        (if item \<noteq> prev_item then qbx_tgt_number [nat (item - 1) := int i]
         else qbx_tgt_number,
         if rest = [] then item else count))"

text \<open>Lines 906 to 915: the two output arrays start uninitialized.\<close>

definition qbx_target_numberer :: "'v direct_env \<Rightarrow> int list \<Rightarrow> int list \<times> int" where
  "qbx_target_numberer env tgt_to_qbx_center =
     qbx_target_numberer_scan tgt_to_qbx_center 0 0
       (map (uninitialized_numbers env) [0 ..< length tgt_to_qbx_center],
        uninitialized_count env)"

text \<open>\<^verbatim>\<open>xs[:n]\<close> for an integer \<open>n\<close>, which counts from the end when negative.\<close>

definition py_slice_to :: "int \<Rightarrow> 'a list \<Rightarrow> 'a list" where
  "py_slice_to n xs =
     (if n \<ge> 0 then take (nat n) xs else take (nat (int (length xs) + n)) xs)"

text \<open>Subscripting the list of per-kernel results with \<^verbatim>\<open>o.kernel_index\<close>.\<close>

definition kernel_result ::
  "insn_output \<Rightarrow> 'v list list \<Rightarrow> error + (string \<times> 'v potential_value)" where
  "kernel_result out output_for_each_kernel =
     (if kernel_index out < length output_for_each_kernel
      then Inr (output_name out, ArrayValue (output_for_each_kernel ! kernel_index out))
      else Inl IndexError)"

text \<open>
  Lines 863 to 875: the target is the source's own density discretization. The dictionary
  \<^verbatim>\<open>centers\<close> has the keys -1 and +1 only, so subscripting it with another limit raises
  \<^verbatim>\<open>KeyError\<close>.
\<close>

definition direct_self_output ::
  "'i qbx_source \<Rightarrow> 'v direct_env \<Rightarrow> insn_output \<Rightarrow> discretization
     \<Rightarrow> error + (string \<times> 'v potential_value)" where
  "direct_self_output self env out target_discr =
     (case qbx_forced_limit out of
        None \<Rightarrow> Inl AssertionError
      | Some limit \<Rightarrow>
          if \<not> \<bar>limit\<bar> > 0 then Inl AssertionError
          else if limit \<noteq> - 1 \<and> limit \<noteq> 1 then Inl (KeyError ''centers'')
          else
            (case lpot_applier env target_discr limit of
               Inl e \<Rightarrow> Inl e
             | Inr output_for_each_kernel \<Rightarrow> kernel_result out output_for_each_kernel))"

text \<open>Lines 917 to 919: the condition under which line 920 raises.\<close>

definition forced_limit_unsatisfied :: "insn_output \<Rightarrow> int \<Rightarrow> discretization \<Rightarrow> bool" where
  "forced_limit_unsatisfied out qbx_tgt_count target_discr =
     (case qbx_forced_limit out of
        None \<Rightarrow> False
      | Some limit \<Rightarrow> \<bar>limit\<bar> = 1 \<and> qbx_tgt_count < int (nnodes target_discr))"

definition no_matching_center :: error where
  "no_matching_center = RuntimeError ''Did not find a matching QBX center for some targets''"

text \<open>
  Lines 923 to 943: the targets numbered by the scan get the corrected value; without any
  such target the point-to-point sum stands.
\<close>

definition direct_correction ::
  "'v direct_env \<Rightarrow> insn_output \<Rightarrow> discretization \<Rightarrow> geometry_data \<Rightarrow> int list
     \<Rightarrow> int list \<times> int \<Rightarrow> 'v list list \<Rightarrow> error + (string \<times> 'v potential_value)" where
  "direct_correction env out target_discr geo_data tgt_to_qbx_center numbered
       output_for_each_kernel =
     (let qbx_tgt_count = snd numbered;
          qbx_tgt_numbers = py_slice_to qbx_tgt_count (fst numbered);
          qbx_center_numbers = map (\<lambda>n. tgt_to_qbx_center ! nat n) qbx_tgt_numbers
      in case (if qbx_tgt_count \<noteq> 0
               then lpot_applier_on_tgt_subset env target_discr geo_data qbx_tgt_numbers
                      qbx_center_numbers output_for_each_kernel
               else Inr output_for_each_kernel) of
           Inl e \<Rightarrow> Inl e
         | Inr corrected \<Rightarrow> kernel_result out corrected)"

text \<open>
  Lines 876 to 943: the target is another discretization. The geometry is requested for
  the single pair of the target and the normalized side; the first \<^verbatim>\<open>ncenters\<close> entries of
  the target association belong to the centers.
\<close>

definition direct_other_output ::
  "'i qbx_source \<Rightarrow> 'v direct_env \<Rightarrow> insn_output \<Rightarrow> discretization \<Rightarrow> session
     \<Rightarrow> (error + (string \<times> 'v potential_value)) \<times> session" where
  "direct_other_output self env out target_discr st =
     (case p2p env target_discr of
        Inl e \<Rightarrow> (Inl e, st)
      | Inr output_for_each_kernel \<Rightarrow>
     (case qbx_fmm_geometry_data self
             [(target_discr, normalized_side (qbx_forced_limit out))] st of
        (geo_data, st1) \<Rightarrow>
          (let tgt_to_qbx_center =
                 drop (ncenters (direct_geometry env) geo_data)
                   (user_target_to_center (direct_geometry env) geo_data);
               numbered = qbx_target_numberer env tgt_to_qbx_center
           in if forced_limit_unsatisfied out (snd numbered) target_discr
                then (Inl no_matching_center, st1)
              else
                (direct_correction env out target_discr geo_data tgt_to_qbx_center numbered
                   output_for_each_kernel, st1))))"

text \<open>
  The body of the loop of lines 858 to 943. \<^verbatim>\<open>self.density_discr is target_discr\<close> compares
  identities.
\<close>

definition direct_output ::
  "'i qbx_source \<Rightarrow> 'v direct_env \<Rightarrow> insn_output \<Rightarrow> session
     \<Rightarrow> (error + (string \<times> 'v potential_value)) \<times> session" where
  "direct_output self env out st =
     (case get_discretization env (target_name out) of
        Inl e \<Rightarrow> (Inl e, st)
      | Inr target_discr \<Rightarrow>
          if discr_id (density_discr self) = discr_id target_discr
          then (direct_self_output self env out target_discr, st)
          else direct_other_output self env out target_discr st)"

fun direct_outputs ::
  "'i qbx_source \<Rightarrow> 'v direct_env \<Rightarrow> insn_output list \<Rightarrow> session
     \<Rightarrow> (error + (string \<times> 'v potential_value) list) \<times> session" where
  "direct_outputs self env [] st = (Inr [], st)"
| "direct_outputs self env (out # rest) st =
     (case direct_output self env out st of
        (Inl e, st1) \<Rightarrow> (Inl e, st1)
      | (Inr r, st1) \<Rightarrow>
          (case direct_outputs self env rest st1 of
             (Inl e, st2) \<Rightarrow> (Inl e, st2)
           | (Inr rs, st2) \<Rightarrow> (Inr (r # rs), st2)))"

text \<open>
  \<^verbatim>\<open>exec_compute_potential_insn_direct\<close> (lines 826 to 946); the timing data it returns
  beside the assignments is the empty dictionary.
\<close>

definition exec_compute_potential_insn_direct ::
  "'i qbx_source \<Rightarrow> 'v direct_env \<Rightarrow> instruction \<Rightarrow> session
     \<Rightarrow> (error + (string \<times> 'v potential_value) list) \<times> session" where
  "exec_compute_potential_insn_direct self env insn st =
     (case direct_preparation env of
        Inl e \<Rightarrow> (Inl e, st)
      | Inr ready \<Rightarrow> direct_outputs self env (outputs insn) st)"

text \<open>
  The number of targets of a geometry that are associated to a center, and the number of
  its targets, both without the centers that come first.
\<close>

definition associated_target_count :: "geometry_accessors \<Rightarrow> geometry_data \<Rightarrow> nat" where
  "associated_target_count acc geo_data =
     length (filter (\<lambda>c. c \<ge> 0) (drop (ncenters acc geo_data) (user_target_to_center acc geo_data)))"

definition geometry_target_count :: "geometry_accessors \<Rightarrow> geometry_data \<Rightarrow> nat" where
  "geometry_target_count acc geo_data =
     length (drop (ncenters acc geo_data) (user_target_to_center acc geo_data))"

subsection \<open>Example inputs\<close>

definition example_get_discretization :: "string \<Rightarrow> error + discretization" where
  "example_get_discretization name =
     (if name = ''src'' then Inr example_discr
      else if name = ''tgt'' then Inr example_target
      else Inl (KeyError name))"

definition example_direct_env :: "int list \<Rightarrow> nat direct_env" where
  "example_direct_env association =
     \<lparr> get_discretization = example_get_discretization,
       direct_preparation = Inr (),
       lpot_applier = (\<lambda>target_discr side. Inr [[1, 2, 3, 4], [5, 6, 7, 8]]),
       p2p = (\<lambda>target_discr. Inr [[10, 11, 12], [20, 21, 22]]),
       lpot_applier_on_tgt_subset =
         (\<lambda>target_discr geo_data numbers centers results.
            Inr (map (\<lambda>result. map (\<lambda>i. if int i \<in> set numbers then 0 else result ! i)
                                  [0 ..< length result]) results)),
       direct_geometry = example_accessors association,
       uninitialized_count = 77,
       uninitialized_numbers = (\<lambda>i. 99) \<rparr>"

definition forced_output :: insn_output where
  "forced_output =
     \<lparr> output_name = ''d'', target_name = ''tgt'', qbx_forced_limit = Some 1, kernel_index = 0 \<rparr>"

definition unforced_output :: insn_output where
  "unforced_output =
     \<lparr> output_name = ''a'', target_name = ''tgt'', qbx_forced_limit = None, kernel_index = 0 \<rparr>"

definition example_direct_insn :: instruction where
  "example_direct_insn = \<lparr> outputs = [unforced_output, forced_output], kernels = [] \<rparr>"

definition example_association :: "int list" where
  "example_association = [0, 0, 0, 0, 0, 0, 0, 0, 3, - 1, 4]"


section \<open>Properties of the constructors and of \<^verbatim>\<open>copy\<close>\<close>

lemma qbx_init_Inr:
  assumes "qbx_init a = Inr s"
  obtains fo qo where "arg_fine_order a = Some fo" and "arg_qbx_order a = Some qo"
    and "init_tolerance a \<noteq> None" and "s = init_attributes a fo qo"
    and "\<not> (arg_fmm_order a \<noteq> None \<and> arg_fmm_level_to_order a \<noteq> None)"
  using assms by (simp add: qbx_init_def split: option.splits if_splits)

lemma qbx_copy_Inr:
  assumes "qbx_copy self c = Inr s"
  obtains fo fl where "copy_kwargs self c = Inr (fo, fl)"
    and "qbx_init (copy_constructor_args self c fo fl) = Inr s"
    and "\<not> (copy_target_stick_out_factor c \<noteq> NotProvided
           \<and> copy_target_association_tolerance c \<noteq> NotProvided)"
  using assms by (simp add: qbx_copy_def split: if_splits sum.splits prod.splits)

lemma init_attributes_fields:
  "density_discr (init_attributes a fo qo) = arg_density_discr a"
  "fine_order (init_attributes a fo qo) = fo"
  "qbx_order (init_attributes a fo qo) = qo"
  "fmm_level_to_order (init_attributes a fo qo) = init_level_to_order a"
  "target_association_tolerance (init_attributes a fo qo) = init_tolerance a"
  "fmm_backend (init_attributes a fo qo) = arg_fmm_backend a"
  "use_fft (init_attributes a fo qo) = arg_use_fft a"
  "to_refined_connection (init_attributes a fo qo) = arg_to_refined_connection a"
  "expansion_factory (init_attributes a fo qo) =
     (case arg_expansion_factory a of None \<Rightarrow> DefaultExpansionFactory | Some f \<Rightarrow> f)"
  "debug (init_attributes a fo qo) = arg_debug a"
  "refined_for_global_qbx (init_attributes a fo qo) = arg_refined_for_global_qbx a"
  "expansions_in_tree_have_extent (init_attributes a fo qo)
     = arg_expansions_in_tree_have_extent a"
  "expansion_stick_out_factor (init_attributes a fo qo) = arg_expansion_stick_out_factor a"
  "well_sep_is_n_away (init_attributes a fo qo) = arg_well_sep_is_n_away a"
  "max_leaf_refine_weight (init_attributes a fo qo) = init_max_leaf_refine_weight a"
  "box_extent_norm (init_attributes a fo qo)
     = (case arg_box_extent_norm a of None \<Rightarrow> ''l2'' | Some n \<Rightarrow> n)"
  "from_sep_smaller_crit (init_attributes a fo qo)
     = (case arg_from_sep_smaller_crit a of None \<Rightarrow> ''precise_linf'' | Some c \<Rightarrow> c)"
  "from_sep_smaller_min_nsources_cumul (init_attributes a fo qo) = init_min_nsources_cumul a"
  "tree_kind (init_attributes a fo qo) = arg_tree_kind a"
  "use_target_specific_qbx (init_attributes a fo qo) = arg_use_target_specific_qbx a"
  "geometry_data_inspector (init_attributes a fo qo) = arg_geometry_data_inspector a"
  "cost_model (init_attributes a fo qo)
     = (case arg_cost_model a of None \<Rightarrow> CostModel | Some m \<Rightarrow> m)"
  by (simp_all add: init_attributes_def)

lemma copy_constructor_args_fields:
  "arg_density_discr (copy_constructor_args self c fo fl)
     = py_or truthy_object (copy_density_discr c) (density_discr self)"
  "arg_fine_order (copy_constructor_args self c fo fl)
     = Some (case copy_fine_order c of Some v \<Rightarrow> v | None \<Rightarrow> fine_order self)"
  "arg_qbx_order (copy_constructor_args self c fo fl)
     = Some (case copy_qbx_order c of Some v \<Rightarrow> v | None \<Rightarrow> qbx_order self)"
  "arg_fmm_order (copy_constructor_args self c fo fl) = fo"
  "arg_fmm_level_to_order (copy_constructor_args self c fo fl) = fl"
  "arg_to_refined_connection (copy_constructor_args self c fo fl)
     = py_or_opt truthy_object (copy_to_refined_connection c) (to_refined_connection self)"
  "arg_expansion_factory (copy_constructor_args self c fo fl)
     = Some (py_or truthy_object (copy_expansion_factory c) (expansion_factory self))"
  "arg_target_association_tolerance (copy_constructor_args self c fo fl)
     = Provided (copy_tolerance self c)"
  "arg_debug (copy_constructor_args self c fo fl) = if_provided (copy_debug c) (debug self)"
  "arg_refined_for_global_qbx (copy_constructor_args self c fo fl)
     = if_provided (copy_refined_for_global_qbx c) (refined_for_global_qbx self)"
  "arg_expansions_in_tree_have_extent (copy_constructor_args self c fo fl)
     = if_provided (copy_expansions_in_tree_have_extent c) (expansions_in_tree_have_extent self)"
  "arg_expansion_stick_out_factor (copy_constructor_args self c fo fl)
     = if_provided (copy_expansion_stick_out_factor c) (expansion_stick_out_factor self)"
  "arg_well_sep_is_n_away (copy_constructor_args self c fo fl) = well_sep_is_n_away self"
  "arg_max_leaf_refine_weight (copy_constructor_args self c fo fl)
     = Some (py_or truthy_int (copy_max_leaf_refine_weight c) (max_leaf_refine_weight self))"
  "arg_box_extent_norm (copy_constructor_args self c fo fl)
     = Some (py_or truthy_str (copy_box_extent_norm c) (box_extent_norm self))"
  "arg_from_sep_smaller_crit (copy_constructor_args self c fo fl)
     = Some (py_or truthy_str (copy_from_sep_smaller_crit c) (from_sep_smaller_crit self))"
  "arg_from_sep_smaller_min_nsources_cumul (copy_constructor_args self c fo fl)
     = Some (from_sep_smaller_min_nsources_cumul self)"
  "arg_tree_kind (copy_constructor_args self c fo fl)
     = py_or_opt truthy_str (copy_tree_kind c) (tree_kind self)"
  "arg_use_target_specific_qbx (copy_constructor_args self c fo fl)
     = if_provided (copy_use_target_specific_qbx c) (use_target_specific_qbx self)"
  "arg_geometry_data_inspector (copy_constructor_args self c fo fl)
     = py_or_opt truthy_object (copy_geometry_data_inspector c) (geometry_data_inspector self)"
  "arg_cost_model (copy_constructor_args self c fo fl)
     = if_provided (copy_cost_model c) (Some (cost_model self))"
  "arg_fmm_backend (copy_constructor_args self c fo fl)
     = py_or truthy_str (copy_fmm_backend c) (fmm_backend self)"
  "arg_use_fft (copy_constructor_args self c fo fl)
     = py_or truthy_bool (copy_use_fft c) (use_fft self)"
  "arg_target_stick_out_factor (copy_constructor_args self c fo fl) = NotProvided"
  by (simp_all add: copy_constructor_args_def)


lemma qbx_init_conflict:
  "arg_fmm_order a = Some fo \<Longrightarrow> arg_fmm_level_to_order a = Some f \<Longrightarrow> \<exists>e. qbx_init a = Inl e"
  by (simp add: qbx_init_def split: option.split)

lemma qbx_init_conflict_exact:
  "arg_fmm_order a = Some fo \<Longrightarrow> arg_fmm_level_to_order a = Some f \<Longrightarrow>
   arg_fine_order a = Some x \<Longrightarrow> arg_qbx_order a = Some y \<Longrightarrow>
   \<not> (arg_target_stick_out_factor a \<noteq> NotProvided
        \<and> arg_target_association_tolerance a \<noteq> NotProvided) \<Longrightarrow>
   qbx_init a = Inl (TypeError ''may not specify both fmm_order and fmm_level_to_order'')"
  by (simp add: qbx_init_def)

lemma qbx_copy_conflict:
  "copy_fmm_order c = Provided x \<Longrightarrow> copy_fmm_level_to_order c = Provided y \<Longrightarrow>
   \<exists>e. qbx_copy self c = Inl e"
  by (simp add: qbx_copy_def copy_kwargs_def)

lemma qbx_init_tolerance:
  "qbx_init a = Inr s \<Longrightarrow>
   target_association_tolerance s = init_tolerance a \<and> init_tolerance a \<noteq> None"
  by (erule qbx_init_Inr) (simp add: init_attributes_fields)

lemmas py_truthy_defs =
  py_or_def py_or_opt_def truthy_object_def truthy_int_def truthy_str_def truthy_bool_def
  if_provided_def

lemma example_source_constructed: "qbx_init example_args = Inr example_source"
  by (simp add: qbx_init_def example_args_def default_args_def init_attributes_def
        init_tolerance_def init_level_to_order_def init_max_leaf_refine_weight_def
        init_min_nsources_cumul_def example_source_def example_discr_def)

lemma example_copy:
  "qbx_copy example_source example_overrides
     = Inr (example_source \<lparr> fine_order := 8, fmm_backend := ''fmmlib'', debug := False \<rparr>)"
  by (simp add: qbx_copy_def copy_kwargs_def copy_constructor_args_def copy_tolerance_def
        example_overrides_def no_overrides_def py_truthy_defs
        qbx_init_def init_attributes_def
        init_tolerance_def init_level_to_order_def init_max_leaf_refine_weight_def
        init_min_nsources_cumul_def example_source_def)

text \<open>
  A copy without any override of a source whose tolerance is set (as every constructed
  source's is) succeeds and equals the original.
\<close>

lemma copy_without_overrides:
  assumes "target_association_tolerance self \<noteq> None"
  shows "qbx_copy self no_overrides = Inr self"
  using assms 
  by (simp add: qbx_copy_def copy_kwargs_def copy_constructor_args_def copy_tolerance_def
        no_overrides_def py_truthy_defs
        qbx_init_def init_attributes_def
        init_tolerance_def init_level_to_order_def init_max_leaf_refine_weight_def
        init_min_nsources_cumul_def)

text \<open>
  Claim C4. Supplying both a fixed \<^verbatim>\<open>fmm_order\<close> and an \<^verbatim>\<open>fmm_level_to_order\<close> makes the
  constructor of the QBX source, its \<^verbatim>\<open>copy\<close> and the constructor of the unregularized
  source raise: no source object results, so no geometry can be requested from one. When
  the earlier argument checks of the QBX constructor pass, the error is the \<^verbatim>\<open>TypeError\<close> of
  line 157.
\<close>

theorem fmm_order_conflict_raises:
  "(arg_fmm_order a = Some (Order n) \<and> arg_fmm_level_to_order a = Some f
      \<longrightarrow> (\<exists>e. qbx_init a = Inl e)
        \<and> (arg_fine_order a \<noteq> None \<and> arg_qbx_order a \<noteq> None
             \<and> \<not> (arg_target_stick_out_factor a \<noteq> NotProvided
                    \<and> arg_target_association_tolerance a \<noteq> NotProvided)
            \<longrightarrow> qbx_init a =
                  Inl (TypeError ''may not specify both fmm_order and fmm_level_to_order'')))
   \<and> (copy_fmm_order c = Provided (Some (Order n))
        \<and> copy_fmm_level_to_order c = Provided (Some f)
      \<longrightarrow> (\<exists>e. qbx_copy self c = Inl e))
   \<and> unregularized_init dd (Some (Order n)) (Some f) ef dbg =
       Inl (TypeError ''may not specify both fmm_order and fmm_level_to_order'')"
proof (intro conjI impI)
  assume h: "arg_fmm_order a = Some (Order n) \<and> arg_fmm_level_to_order a = Some f"
  then show "\<exists>e. qbx_init a = Inl e"
    using qbx_init_conflict by blast
  assume "arg_fine_order a \<noteq> None \<and> arg_qbx_order a \<noteq> None
             \<and> \<not> (arg_target_stick_out_factor a \<noteq> NotProvided
                    \<and> arg_target_association_tolerance a \<noteq> NotProvided)"
  with h show "qbx_init a =
                  Inl (TypeError ''may not specify both fmm_order and fmm_level_to_order'')"
    using qbx_init_conflict_exact [of a "Order n" f] by blast
next
  assume "copy_fmm_order c = Provided (Some (Order n))
        \<and> copy_fmm_level_to_order c = Provided (Some f)"
  then show "\<exists>e. qbx_copy self c = Inl e"
    using qbx_copy_conflict by blast
next
  show "unregularized_init dd (Some (Order n)) (Some f) ef dbg =
       Inl (TypeError ''may not specify both fmm_order and fmm_level_to_order'')"
    by (simp add: unregularized_init_def)
qed

theorem fmm_order_conflict_raises_witness:
  "qbx_init ((example_args :: nat qbx_args)
       \<lparr> arg_fmm_level_to_order := Some (LevelToOrderFun 0) \<rparr>)
     = Inl (TypeError ''may not specify both fmm_order and fmm_level_to_order'')
   \<and> (\<exists>e. qbx_copy (example_source :: nat qbx_source)
          (no_overrides \<lparr> copy_fmm_order := Provided (Some (Order 5)),
                          copy_fmm_level_to_order := Provided (Some (LevelToOrderFun 0)) \<rparr>)
        = Inl e)
   \<and> unregularized_init example_discr (Some (Order 5)) (Some (LevelToOrderFun 0)) None True =
       Inl (TypeError ''may not specify both fmm_order and fmm_level_to_order'')"
  using fmm_order_conflict_raises
    [of "(example_args :: nat qbx_args)
           \<lparr> arg_fmm_level_to_order := Some (LevelToOrderFun 0) \<rparr>" 5
        "LevelToOrderFun 0"
        "no_overrides \<lparr> copy_fmm_order := Provided (Some (Order 5)),
                          copy_fmm_level_to_order := Provided (Some (LevelToOrderFun 0)) \<rparr>"
        "example_source :: nat qbx_source" example_discr None True]
  by (simp add: example_args_def default_args_def no_overrides_def)

text \<open>
  Claim C9. When neither \<^verbatim>\<open>target_association_tolerance\<close> nor the deprecated
  \<^verbatim>\<open>target_stick_out_factor\<close> is supplied, the constructed source's tolerance is 1000 times
  the machine epsilon of the density discretization's real dtype; the tolerance of a
  constructed source is never \<^verbatim>\<open>None\<close>; and supplying both arguments raises.
\<close>

theorem default_tolerance:
  "(arg_target_association_tolerance a = NotProvided
      \<and> arg_target_stick_out_factor a = NotProvided \<and> qbx_init a = Inr s
     \<longrightarrow> target_association_tolerance s
           = Some (1000 * finfo_eps (real_dtype (arg_density_discr a))))
   \<and> (qbx_init a = Inr s \<longrightarrow> target_association_tolerance s \<noteq> None)
   \<and> (arg_target_association_tolerance a \<noteq> NotProvided
        \<and> arg_target_stick_out_factor a \<noteq> NotProvided
     \<longrightarrow> (\<exists>e. qbx_init a = Inl e))"
proof (intro conjI impI)
  assume h: "arg_target_association_tolerance a = NotProvided
      \<and> arg_target_stick_out_factor a = NotProvided \<and> qbx_init a = Inr s"
  then have "target_association_tolerance s = init_tolerance a"
    using qbx_init_tolerance by blast
  with h show "target_association_tolerance s
           = Some (1000 * finfo_eps (real_dtype (arg_density_discr a)))"
    by (simp add: init_tolerance_def)
next
  assume "qbx_init a = Inr s"
  then show "target_association_tolerance s \<noteq> None"
    using qbx_init_tolerance by fastforce
next
  assume "arg_target_association_tolerance a \<noteq> NotProvided
        \<and> arg_target_stick_out_factor a \<noteq> NotProvided"
  then show "\<exists>e. qbx_init a = Inl e"
    by (simp add: qbx_init_def split: option.split)
qed

theorem default_tolerance_witness:
  "qbx_init (example_args :: nat qbx_args) = Inr example_source
   \<and> target_association_tolerance (example_source :: nat qbx_source) = Some (1000 / 2 ^ 52)
   \<and> (\<exists>e. qbx_init
          ((example_args :: nat qbx_args)
             \<lparr> arg_target_association_tolerance := Provided (Some (1 / 100)),
               arg_target_stick_out_factor := Provided (Some (1 / 100)) \<rparr>) = Inl e)"
  using default_tolerance [of "example_args :: nat qbx_args" example_source]
    default_tolerance
      [of "(example_args :: nat qbx_args)
             \<lparr> arg_target_association_tolerance := Provided (Some (1 / 100)),
               arg_target_stick_out_factor := Provided (Some (1 / 100)) \<rparr>"]
    example_source_constructed [where 'a = nat]
  by (simp add: example_args_def default_args_def example_source_def example_discr_def)

text \<open>
  Claim C8, as amended. A successful \<^verbatim>\<open>copy\<close> keeps every attribute that is not overridden
  (none is reset to the constructor's default), carries every override passed through the
  \<^verbatim>\<open>_not_provided\<close> sentinel (a \<^verbatim>\<open>cost_model\<close> of \<^verbatim>\<open>None\<close> gives the default cost model,
  an \<^verbatim>\<open>fmm_order\<close> becomes the matching \<^verbatim>\<open>fmm_level_to_order\<close>), and carries an override of
  an argument defaulting to \<^verbatim>\<open>None\<close> whenever that override is truthy.
\<close>

theorem copy_keeps_and_overrides:
  assumes "qbx_copy self c = Inr s"
  shows "copy_postcondition self c s"
proof -
  from assms obtain fo fl where kw: "copy_kwargs self c = Inr (fo, fl)"
    and init: "qbx_init (copy_constructor_args self c fo fl) = Inr s"
    by (rule qbx_copy_Inr)
  from init obtain fo' qo' where
    fo': "arg_fine_order (copy_constructor_args self c fo fl) = Some fo'" and
    qo': "arg_qbx_order (copy_constructor_args self c fo fl) = Some qo'" and
    s: "s = init_attributes (copy_constructor_args self c fo fl) fo' qo'"
    by (rule qbx_init_Inr)
  have lto: "case (copy_fmm_order c, copy_fmm_level_to_order c) of
        (NotProvided, NotProvided) \<Rightarrow> fmm_level_to_order s = fmm_level_to_order self
      | (NotProvided, Provided (Some f)) \<Rightarrow> fmm_level_to_order s = f
      | (NotProvided, Provided None) \<Rightarrow> fmm_level_to_order s = ConstantOrder None
      | (Provided (Some OrderFalse), _) \<Rightarrow> fmm_level_to_order s = LevelToOrderFalse
      | (Provided (Some (Order n)), _) \<Rightarrow> fmm_level_to_order s = ConstantOrder (Some n)
      | (Provided None, _) \<Rightarrow> fmm_level_to_order s = ConstantOrder None"
    using kw
    by (auto simp: s init_attributes_fields init_level_to_order_def
          copy_constructor_args_fields copy_kwargs_def
        split: provided.splits option.splits order_arg.splits)
  have tol: "case (copy_target_stick_out_factor c, copy_target_association_tolerance c) of
        (NotProvided, NotProvided) \<Rightarrow>
          target_association_tolerance s = target_association_tolerance self
      | (NotProvided, Provided t) \<Rightarrow> target_association_tolerance s = t
      | (Provided t, _) \<Rightarrow> target_association_tolerance s = t"
    by (simp add: s init_attributes_fields init_tolerance_def copy_constructor_args_fields
          copy_tolerance_def if_provided_def split: provided.splits)
  have fine: "case copy_fine_order c of
        None \<Rightarrow> fine_order s = fine_order self | Some v \<Rightarrow> fine_order s = v"
    using fo' by (auto simp: s init_attributes_fields copy_constructor_args_fields
        split: option.splits)
  have qbx: "case copy_qbx_order c of
        None \<Rightarrow> qbx_order s = qbx_order self | Some v \<Rightarrow> qbx_order s = v"
    using qo' by (auto simp: s init_attributes_fields copy_constructor_args_fields
        split: option.splits)
  have cm: "case copy_cost_model c of
        NotProvided \<Rightarrow> cost_model s = cost_model self
      | Provided None \<Rightarrow> cost_model s = CostModel
      | Provided (Some m) \<Rightarrow> cost_model s = m"
    by (simp add: s init_attributes_fields copy_constructor_args_fields if_provided_def
        split: provided.splits option.splits)
  have mlw: "case copy_max_leaf_refine_weight c of
        None \<Rightarrow> max_leaf_refine_weight s = max_leaf_refine_weight self
      | Some w \<Rightarrow> w \<noteq> 0 \<longrightarrow> max_leaf_refine_weight s = w"
    by (simp add: s init_attributes_fields copy_constructor_args_fields
          init_max_leaf_refine_weight_def py_truthy_defs split: option.splits)
  have cumul: "from_sep_smaller_min_nsources_cumul s = from_sep_smaller_min_nsources_cumul self"
    by (simp add: s init_attributes_fields copy_constructor_args_fields
          init_min_nsources_cumul_def)
  show ?thesis
    unfolding copy_postcondition_def
    apply (intro conjI)
    apply (simp_all only: lto tol fine qbx cm mlw cumul)
    apply (simp_all add: s init_attributes_fields copy_constructor_args_fields py_truthy_defs
       split: option.splits)
    done
qed

theorem copy_keeps_and_overrides_witness:
  "qbx_copy (example_source :: nat qbx_source) example_overrides
     = Inr (example_source \<lparr> fine_order := 8, fmm_backend := ''fmmlib'', debug := False \<rparr>)
   \<and> fine_order (example_source \<lparr> fine_order := 8, fmm_backend := ''fmmlib'', debug := False \<rparr>
                   :: nat qbx_source) = 8
   \<and> use_fft (example_source \<lparr> fine_order := 8, fmm_backend := ''fmmlib'', debug := False \<rparr>
                   :: nat qbx_source) = use_fft (example_source :: nat qbx_source)"
proof -
  from copy_keeps_and_overrides [OF example_copy [where 'a = nat]]
  have "fine_order (example_source \<lparr> fine_order := 8, fmm_backend := ''fmmlib'',
                     debug := False \<rparr> :: nat qbx_source) = 8"
    and "use_fft (example_source \<lparr> fine_order := 8, fmm_backend := ''fmmlib'',
                    debug := False \<rparr> :: nat qbx_source)
         = use_fft (example_source :: nat qbx_source)"
    by (simp_all add: copy_postcondition_def example_overrides_def no_overrides_def)
  with example_copy [where 'a = nat] show ?thesis by simp
qed

text \<open>
  The claim as stated fails: on a source with \<^verbatim>\<open>use_fft = True\<close>, \<^verbatim>\<open>copy(use_fft=False)\<close>
  returns a source equal to the original, and \<^verbatim>\<open>copy(cost_model=None)\<close> on a source with
  a cost model of the caller's returns a source with the default cost model.
\<close>

theorem copy_override_counterexample:
  "use_fft example_source = True
   \<and> qbx_copy example_source (no_overrides \<lparr> copy_use_fft := Some False \<rparr>) = Inr example_source
   \<and> cost_model example_source = UserCostModel 7
   \<and> qbx_copy example_source (no_overrides \<lparr> copy_cost_model := Provided None \<rparr>)
       = Inr (example_source \<lparr> cost_model := CostModel \<rparr>)"
  by (simp add: qbx_copy_def copy_kwargs_def copy_constructor_args_def copy_tolerance_def
        no_overrides_def py_truthy_defs
        qbx_init_def init_attributes_def
        init_tolerance_def init_level_to_order_def init_max_leaf_refine_weight_def
        init_min_nsources_cumul_def example_source_def)

section \<open>Properties of the fmmlib wrangler and of the backend selection\<close>

lemma is_supported_helmknl_result:
  "fst (is_supported_helmknl knl st) = helmholtz3_or_source_derivative knl"
  by (cases knl rule: helmholtz3_or_source_derivative.cases)
     (simp_all add: is_supported_helmknl_def split: kernel.splits)

lemma fmmlib_accepts_iff:
  "fmmlib_accepts knl \<longleftrightarrow>
     helmholtz3_or_source_derivative knl
     \<or> (\<exists>axis inner. knl = AxisTargetDerivative axis inner
           \<and> helmholtz3_or_source_derivative inner)"
  by (cases knl) simp_all

lemma digest_step_rejected:
  assumes "\<not> fmmlib_accepts knl"
  shows "digest_out_kernels (knl # rest) st = Inl unsupported_kernel"
proof -
  obtain b st1 where r: "is_supported_helmknl knl st = (b, st1)"
    by (cases "is_supported_helmknl knl st")
  from assms have no: "\<not> helmholtz3_or_source_derivative knl"
    by (simp add: fmmlib_accepts_iff)
  with r have b: "b = False"
    using is_supported_helmknl_result [of knl st] by simp
  show ?thesis
  proof (cases knl)
    case (AxisTargetDerivative axis inner)
    obtain b2 st2 where r2: "is_supported_helmknl inner st1 = (b2, st2)"
      by (cases "is_supported_helmknl inner st1")
    from assms AxisTargetDerivative have "\<not> helmholtz3_or_source_derivative inner"
      by simp
    with r2 have "b2 = False"
      using is_supported_helmknl_result [of inner st1] by simp
    with r b r2 AxisTargetDerivative show ?thesis by simp
  qed (use r b in simp_all)
qed

lemma digest_step_accepted:
  assumes "fmmlib_accepts knl"
  shows "\<exists>st'. digest_out_kernels (knl # rest) st = digest_out_kernels rest st'"
proof -
  obtain b st1 where r: "is_supported_helmknl knl st = (b, st1)"
    by (cases "is_supported_helmknl knl st")
  show ?thesis
  proof (cases b)
    case True
    with r show ?thesis by auto
  next
    case False
    with r have "\<not> helmholtz3_or_source_derivative knl"
      using is_supported_helmknl_result [of knl st] by simp
    with assms obtain axis inner where k: "knl = AxisTargetDerivative axis inner"
      and i: "helmholtz3_or_source_derivative inner"
      by (auto simp: fmmlib_accepts_iff)
    obtain b2 st2 where r2: "is_supported_helmknl inner st1 = (b2, st2)"
      by (cases "is_supported_helmknl inner st1")
    with i have "b2 = True"
      using is_supported_helmknl_result [of inner st1] by simp
    with r False r2 k show ?thesis by auto
  qed
qed

lemma digest_rejects:
  "\<exists>knl\<in>set ks. \<not> fmmlib_accepts knl \<Longrightarrow> digest_out_kernels ks st = Inl unsupported_kernel"
proof (induction ks arbitrary: st)
  case Nil
  then show ?case by simp
next
  case (Cons knl rest)
  show ?case
  proof (cases "fmmlib_accepts knl")
    case True
    with Cons.prems have "\<exists>k\<in>set rest. \<not> fmmlib_accepts k" by auto
    then have "\<And>st'. digest_out_kernels rest st' = Inl unsupported_kernel"
      by (rule Cons.IH)
    with digest_step_accepted [OF True, of rest st] show ?thesis by auto
  next
    case False
    then show ?thesis by (rule digest_step_rejected)
  qed
qed

lemma digest_accepts:
  "\<forall>knl\<in>set ks. fmmlib_accepts knl \<Longrightarrow> \<exists>dg. digest_out_kernels ks st = Inr dg"
proof (induction ks arbitrary: st)
  case Nil
  then show ?case by simp
next
  case (Cons knl rest)
  then have "fmmlib_accepts knl" and "\<forall>k\<in>set rest. fmmlib_accepts k" by auto
  with Cons.IH digest_step_accepted [of knl rest st] show ?case by metis
qed

text \<open>
  Claim C3, as amended. With the fmmlib backend, an output kernel that is neither the 3D
  Helmholtz kernel, nor a directional source derivative of it, nor an axis target derivative
  of one of these two makes the wrangler's constructor raise \<^verbatim>\<open>NotImplementedError\<close>; and a
  backend name other than \<^verbatim>\<open>sumpy\<close> and \<^verbatim>\<open>fmmlib\<close> makes
  \<^verbatim>\<open>expansion_wrangler_code_container\<close> raise.
\<close>

theorem fmmlib_rejects_unsupported_kernels:
  "((\<exists>knl\<in>set out_kernels. \<not> fmmlib_accepts knl)
      \<longrightarrow> fmmlib_wrangler_init out_kernels geo nlevels qbx_ord level_to_order source_kwargs
            kernel_kwargs = Inl unsupported_kernel)
   \<and> (fmm_backend self \<noteq> ''sumpy'' \<and> fmm_backend self \<noteq> ''fmmlib''
      \<longrightarrow> (\<exists>e. expansion_wrangler_code_container self get_mpole get_local fmm_kernel
                 out_kernels = Inl e))"
proof (intro conjI impI)
  assume "\<exists>knl\<in>set out_kernels. \<not> fmmlib_accepts knl"
  then have "digest_out_kernels out_kernels empty_digest = Inl unsupported_kernel"
    by (rule digest_rejects)
  then show "fmmlib_wrangler_init out_kernels geo nlevels qbx_ord level_to_order source_kwargs
            kernel_kwargs = Inl unsupported_kernel"
    by (simp add: fmmlib_wrangler_init_def)
next
  assume "fmm_backend self \<noteq> ''sumpy'' \<and> fmm_backend self \<noteq> ''fmmlib''"
  then show "\<exists>e. expansion_wrangler_code_container self get_mpole get_local fmm_kernel
                 out_kernels = Inl e"
    by (simp add: expansion_wrangler_code_container_def split: sum.split)
qed

theorem fmmlib_rejects_unsupported_kernels_witness:
  "fmmlib_wrangler_init [HelmholtzKernel 3 ''k'', LaplaceKernel 3] () 2 3 example_level_to_order
     example_source_kwargs example_kernel_kwargs = Inl unsupported_kernel
   \<and> (\<exists>e. expansion_wrangler_code_container
          ((example_source :: nat qbx_source) \<lparr> fmm_backend := ''fmm3d'' \<rparr>)
          (\<lambda>f k. Inr (0::nat)) (\<lambda>f k. Inr 1) (HelmholtzKernel 3 ''k'')
          [HelmholtzKernel 3 ''k'', LaplaceKernel 3]
        = Inl e)"
  using fmmlib_rejects_unsupported_kernels
    [of "[HelmholtzKernel 3 ''k'', LaplaceKernel 3]"
        "()" 2 3 example_level_to_order example_source_kwargs example_kernel_kwargs
        "(example_source :: nat qbx_source) \<lparr> fmm_backend := ''fmm3d'' \<rparr>"
        "\<lambda>f k. Inr (0::nat)" "\<lambda>f k. Inr 1" "HelmholtzKernel 3 ''k''"]
  by (simp add: example_source_def)

text \<open>
  The claim as stated fails: the double layer kernel, a directional source derivative of the
  3D Helmholtz kernel, is neither that kernel nor an axis target derivative of it, and the
  wrangler is constructed for it.
\<close>

theorem fmmlib_source_derivative_counterexample:
  "\<not> helmholtz3_or_target_derivative double_layer_helmholtz
   \<and> fmmlib_wrangler_init [double_layer_helmholtz] () 2 3 example_level_to_order
       example_source_kwargs example_kernel_kwargs
     = Inr \<lparr> wrangler_geo_data = (), wrangler_qbx_order = 3, wrangler_outputs = [[]],
             wrangler_level_orders = [5, 5], wrangler_helmholtz_k = 2,
             wrangler_dipole_vec = Some 1, wrangler_nterms = 5, wrangler_ifgrad = False \<rparr>"
  by (simp add: double_layer_helmholtz_def fmmlib_wrangler_init_def empty_digest_def
        is_supported_helmknl_def is_single_valued_def single_valued_def dict_get_def
        example_level_to_order_def example_source_kwargs_def example_kernel_kwargs_def
        upt_rec)


section \<open>Properties of the target gathering\<close>

lemma set_first_occurrences [simp]: "set (first_occurrences xs) = set xs"
  by (induction xs rule: first_occurrences.induct) auto

lemma distinct_first_occurrences [simp]: "distinct (first_occurrences xs)"
  by (induction xs rule: first_occurrences.induct) auto

lemma gathered_empty: "gathered get_geometry [] Map.empty []"
  by (simp add: gathered_def)

lemma gathered_step:
  assumes g: "gathered get_geometry ks numbering discrs"
    and new: "numbering key = None"
    and geo: "get_geometry (fst key) = Inr geo"
  shows "gathered get_geometry (ks @ [key]) (numbering (key \<mapsto> length discrs))
           (discrs @ [(geometry_discr geo, normalized_side (snd key))])"
proof -
  from g new have notin: "key \<notin> set ks"
    by (auto simp: gathered_def)
  from g have len: "length discrs = length ks" by (simp add: gathered_def)
  have "\<forall>i<length (ks @ [key]).
          (numbering (key \<mapsto> length discrs)) ((ks @ [key]) ! i) = Some i
          \<and> key_entry get_geometry ((ks @ [key]) ! i)
               ((discrs @ [(geometry_discr geo, normalized_side (snd key))]) ! i)"
  proof (intro allI impI)
    fix i assume "i < length (ks @ [key])"
    then consider "i < length ks" | "i = length ks" by fastforce
    then show "(numbering (key \<mapsto> length discrs)) ((ks @ [key]) ! i) = Some i
          \<and> key_entry get_geometry ((ks @ [key]) ! i)
               ((discrs @ [(geometry_discr geo, normalized_side (snd key))]) ! i)"
    proof cases
      case 1
      with notin have "ks ! i \<noteq> key" by auto
      with 1 g len show ?thesis by (simp add: gathered_def nth_append)
    next
      case 2
      with len geo show ?thesis by (simp add: nth_append key_entry_def)
    qed
  qed
  with g notin len show ?thesis
    by (simp add: gathered_def)
qed

lemma gather_targets_gathered:
  assumes "gather_targets get_geometry outs numbering discrs = Inr (numbering', discrs')"
    and "gathered get_geometry ks numbering discrs"
  shows "gathered get_geometry
           (ks @ first_occurrences (filter (\<lambda>k. k \<notin> set ks) (map output_key outs)))
           numbering' discrs'"
  using assms
proof (induction outs arbitrary: ks numbering discrs)
  case Nil
  then show ?case by simp
next
  case (Cons out rest)
  show ?case
  proof (cases "numbering (output_key out)")
    case (Some n)
    with Cons.prems(2) have "output_key out \<in> set ks"
      by (auto simp: gathered_def)
    moreover from Some Cons.prems(1)
    have "gather_targets get_geometry rest numbering discrs = Inr (numbering', discrs')"
      by simp
    ultimately show ?thesis
      using Cons.IH [OF _ Cons.prems(2)] by simp
  next
    case None
    with Cons.prems(2) have notin: "output_key out \<notin> set ks"
      by (auto simp: gathered_def)
    from None Cons.prems(1) obtain geo where
      geo: "get_geometry (target_name out) = Inr geo" and
      rest: "gather_targets get_geometry rest
               (numbering (output_key out \<mapsto> length discrs))
               (discrs @ [(geometry_discr geo, normalized_side (qbx_forced_limit out))])
             = Inr (numbering', discrs')"
      by (auto split: sum.splits)
    have "gathered get_geometry (ks @ [output_key out])
            (numbering (output_key out \<mapsto> length discrs))
            (discrs @ [(geometry_discr geo, normalized_side (snd (output_key out)))])"
      using Cons.prems(2) None geo by (intro gathered_step) (simp_all add: output_key_def)
    then have "gathered get_geometry (ks @ [output_key out])
            (numbering (output_key out \<mapsto> length discrs))
            (discrs @ [(geometry_discr geo, normalized_side (qbx_forced_limit out))])"
      by (simp add: output_key_def)
    from Cons.IH [OF rest this] notin show ?thesis
      by (simp add: conj_commute)
  qed
qed


lemma gather_targets_total:
  assumes "\<forall>out\<in>set outs. \<exists>g. get_geometry (target_name out) = Inr g"
  shows "\<exists>r. gather_targets get_geometry outs numbering discrs = Inr r"
  using assms
proof (induction outs arbitrary: numbering discrs)
  case Nil
  then show ?case by simp
next
  case (Cons out rest)
  then obtain g where "get_geometry (target_name out) = Inr g" by auto
  with Cons show ?case by simp
qed

lemma get_targets_gathered:
  assumes "get_target_discrs_and_qbx_sides get_geometry insn = Inr (numbering, discrs)"
  shows "gathered get_geometry (first_occurrences (map output_key (outputs insn)))
           numbering discrs"
  using gather_targets_gathered [OF _ gathered_empty, of get_geometry "outputs insn"] assms
  by (simp add: get_target_discrs_and_qbx_sides_def)

lemma gathered_lookup:
  assumes "gathered get_geometry ks numbering discrs" and "key \<in> set ks"
  shows "\<exists>i<length ks. numbering key = Some i \<and> ks ! i = key
           \<and> key_entry get_geometry key (discrs ! i)"
proof -
  from assms(2) obtain i where "i < length ks" and "ks ! i = key"
    by (auto simp: in_set_conv_nth)
  with assms(1) show ?thesis
    by (auto simp: gathered_def)
qed

lemma example_gather:
  "get_target_discrs_and_qbx_sides example_places example_insn
     = Inr (example_numbering, [(example_target, 0), (example_discr, 1)])"
  by (simp add: get_target_discrs_and_qbx_sides_def example_insn_def example_outputs_def
        example_places_def example_numbering_def output_key_def normalized_side_def)


section \<open>Properties of the memoized geometry accessor\<close>

lemma geometry_cached_after_request:
  "geometry_cache (snd (qbx_fmm_geometry_data self spec st)) spec
     = Some (fst (qbx_fmm_geometry_data self spec st))"
  by (simp add: qbx_fmm_geometry_data_def new_geometry_data_def split: option.split)

lemma geometry_cache_kept:
  "geometry_cache st spec = Some g \<Longrightarrow>
   geometry_cache (snd (qbx_fmm_geometry_data self spec' st)) spec = Some g"
  by (simp add: qbx_fmm_geometry_data_def new_geometry_data_def split: option.split) auto

lemma geometry_cache_kept_requests:
  "geometry_cache st spec = Some g \<Longrightarrow>
   geometry_cache (geometry_requests self specs st) spec = Some g"
  by (induction specs arbitrary: st) (simp_all add: geometry_cache_kept)

lemma geometry_cache_hit:
  "geometry_cache st spec = Some g \<Longrightarrow> qbx_fmm_geometry_data self spec st = (g, st)"
  by (simp add: qbx_fmm_geometry_data_def)

lemma wf_session_empty: "wf_session empty_session"
  by (simp add: wf_session_def empty_session_def)

lemma wf_session_request:
  "wf_session st \<Longrightarrow> wf_session (snd (qbx_fmm_geometry_data self spec st))"
  by (auto simp: wf_session_def qbx_fmm_geometry_data_def new_geometry_data_def
           split: option.splits)

lemma geometry_request_targets:
  "wf_session st \<Longrightarrow> geo_targets (fst (qbx_fmm_geometry_data self spec st)) = spec"
  by (auto simp: wf_session_def qbx_fmm_geometry_data_def new_geometry_data_def
           split: option.splits)

lemma geometry_request_driver_calls:
  "driver_calls (snd (qbx_fmm_geometry_data self spec st)) = driver_calls st"
  by (simp add: driver_calls_def qbx_fmm_geometry_data_def new_geometry_data_def
           split: option.split)

text \<open>
  Claim C5. After a request for a target specification, every later request for an equal
  specification on the same source, whatever was requested in between, returns the very
  object of the first request (with its identity) and leaves the session as it was: nothing
  is built.
\<close>

theorem geometry_built_once_per_key:
  "fst (qbx_fmm_geometry_data self spec
          (geometry_requests self specs (snd (qbx_fmm_geometry_data self spec st))))
     = fst (qbx_fmm_geometry_data self spec st)
   \<and> snd (qbx_fmm_geometry_data self spec
          (geometry_requests self specs (snd (qbx_fmm_geometry_data self spec st))))
     = geometry_requests self specs (snd (qbx_fmm_geometry_data self spec st))"
proof -
  define g where "g = fst (qbx_fmm_geometry_data self spec st)"
  define st1 where "st1 = snd (qbx_fmm_geometry_data self spec st)"
  have "geometry_cache st1 spec = Some g"
    unfolding g_def st1_def by (rule geometry_cached_after_request)
  then have "geometry_cache (geometry_requests self specs st1) spec = Some g"
    by (rule geometry_cache_kept_requests)
  then have "qbx_fmm_geometry_data self spec (geometry_requests self specs st1)
               = (g, geometry_requests self specs st1)"
    by (rule geometry_cache_hit)
  then show ?thesis
    unfolding g_def st1_def by simp
qed


section \<open>Properties of the evaluation through the FMM\<close>

lemma exec_fmm_setup_error:
  assumes "get_target_discrs_and_qbx_sides (places_get_geometry env) insn = Inr (numbering, spec)"
    and "fmm_setup self env insn (fst (qbx_fmm_geometry_data self spec st)) = Inl e"
  shows "exec_compute_potential_insn_fmm self env insn fmm_driver st
           = (Inl e, snd (qbx_fmm_geometry_data self spec st))"
proof -
  obtain geo st1 where eq: "qbx_fmm_geometry_data self spec st = (geo, st1)"
    by (cases "qbx_fmm_geometry_data self spec st")
  with assms show ?thesis
    by (simp add: exec_compute_potential_insn_fmm_def)
qed

lemma exec_fmm_failed:
  assumes "get_target_discrs_and_qbx_sides (places_get_geometry env) insn = Inr (numbering, spec)"
    and "fmm_setup self env insn (fst (qbx_fmm_geometry_data self spec st)) = Inr ready"
    and "has_failed_targets (fmm_geometry env) (fst (qbx_fmm_geometry_data self spec st))"
  shows "exec_compute_potential_insn_fmm self env insn fmm_driver st
           = (Inl (RuntimeError ''geometry has failed targets''),
              snd (qbx_fmm_geometry_data self spec st))"
proof -
  obtain geo st1 where eq: "qbx_fmm_geometry_data self spec st = (geo, st1)"
    by (cases "qbx_fmm_geometry_data self spec st")
  with assms show ?thesis
    by (simp add: exec_compute_potential_insn_fmm_def split: prod.split)
qed

lemma exec_fmm_veto:
  assumes "get_target_discrs_and_qbx_sides (places_get_geometry env) insn = Inr (numbering, spec)"
    and "fmm_setup self env insn (fst (qbx_fmm_geometry_data self spec st)) = Inr ready"
    and "\<not> has_failed_targets (fmm_geometry env) (fst (qbx_fmm_geometry_data self spec st))"
    and "geometry_data_inspector self = Some inspector"
    and "\<not> inspector insn (fst (qbx_fmm_geometry_data self spec st))"
  shows "exec_compute_potential_insn_fmm self env insn fmm_driver st
           = (Inr (Placeholders (zero_placeholders insn)),
              (snd (qbx_fmm_geometry_data self spec st))
                \<lparr> log := log (snd (qbx_fmm_geometry_data self spec st)) @ [InspectorCalled] \<rparr>)"
proof -
  obtain geo st1 where eq: "qbx_fmm_geometry_data self spec st = (geo, st1)"
    by (cases "qbx_fmm_geometry_data self spec st")
  with assms show ?thesis
    by (simp add: exec_compute_potential_insn_fmm_def geometry_inspection_def
          split: prod.split)
qed

lemma driver_calls_inspected:
  "driver_calls (st \<lparr> log := log st @ [InspectorCalled] \<rparr>) = driver_calls st"
  by (simp add: driver_calls_def)

text \<open>
  Claim C1. When the target association of the geometry that the evaluation obtains has a
  target in the state FAILED, the FMM path raises: it returns an error and no assignment of
  any output, and the driver has not been invoked. When the steps before the test succeed,
  the error is the \<^verbatim>\<open>RuntimeError\<close> of line 741.
\<close>

theorem failed_targets_abort_before_driver:
  assumes "get_target_discrs_and_qbx_sides (places_get_geometry env) insn = Inr (numbering, spec)"
    and "target_state_FAILED (fmm_geometry env)
           \<in> set (user_target_to_center (fmm_geometry env)
                    (fst (qbx_fmm_geometry_data self spec st)))"
  shows "(\<exists>e. fst (exec_compute_potential_insn_fmm self env insn fmm_driver st) = Inl e)
       \<and> driver_calls (snd (exec_compute_potential_insn_fmm self env insn fmm_driver st))
           = driver_calls st
       \<and> (\<forall>ready. fmm_setup self env insn (fst (qbx_fmm_geometry_data self spec st)) = Inr ready
             \<longrightarrow> fst (exec_compute_potential_insn_fmm self env insn fmm_driver st)
                   = Inl (RuntimeError ''geometry has failed targets''))"
proof -
  from assms(2)
  have failed: "has_failed_targets (fmm_geometry env) (fst (qbx_fmm_geometry_data self spec st))"
    by (auto simp: has_failed_targets_def list_ex_iff)
  show ?thesis
  proof (cases "fmm_setup self env insn (fst (qbx_fmm_geometry_data self spec st))")
    case (Inl e)
    from exec_fmm_setup_error [OF assms(1) Inl, of fmm_driver] show ?thesis
      by (simp add: Inl geometry_request_driver_calls)
  next
    case (Inr ready)
    from exec_fmm_failed [OF assms(1) Inr failed, of fmm_driver] show ?thesis
      by (simp add: Inr geometry_request_driver_calls)
  qed
qed

lemma example_fmm_setup:
  "fmm_setup example_source (example_fmm_env association) example_insn geo_data
     = Inr ((), HelmholtzKernel 3 ''k'', (), ())"
  by (simp add: fmm_setup_def example_fmm_env_def expansion_wrangler_code_container_def
        call_get_wrangler_def example_source_def)

theorem failed_targets_abort_before_driver_witness:
  "fst (exec_compute_potential_insn_fmm example_source (example_fmm_env [0, 1, - 2, 0, 0, 0, 5])
          example_insn example_driver empty_session)
     = Inl (RuntimeError ''geometry has failed targets'')
   \<and> driver_calls (snd (exec_compute_potential_insn_fmm example_source
          (example_fmm_env [0, 1, - 2, 0, 0, 0, 5]) example_insn example_driver empty_session))
       = 0"
proof -
  have targets: "get_target_discrs_and_qbx_sides
      (places_get_geometry (example_fmm_env [0, 1, - 2, 0, 0, 0, 5])) example_insn
        = Inr (example_numbering, [(example_target, 0), (example_discr, 1)])"
    using example_gather by (simp add: example_fmm_env_def)
  have failed: "target_state_FAILED (fmm_geometry (example_fmm_env [0, 1, - 2, 0, 0, 0, 5]))
           \<in> set (user_target_to_center (fmm_geometry (example_fmm_env [0, 1, - 2, 0, 0, 0, 5]))
                    (fst (qbx_fmm_geometry_data example_source
                           [(example_target, 0), (example_discr, 1)] empty_session)))"
    by (simp add: example_fmm_env_def example_accessors_def)
  from failed_targets_abort_before_driver [OF targets failed, of example_driver]
  show ?thesis
    by (simp add: example_fmm_setup driver_calls_def empty_session_def)
qed

text \<open>
  Claim C7. When an inspection hook is configured and answers false for the geometry that
  the evaluation obtains, the FMM path never invokes the driver, and whatever it returns
  is the list that assigns the placeholder 0 to the name of every output of the
  instruction; it does return this list when the steps before the hook raise nothing.
\<close>

theorem inspector_veto_returns_placeholders:
  assumes "get_target_discrs_and_qbx_sides (places_get_geometry env) insn = Inr (numbering, spec)"
    and "geometry_data_inspector self = Some inspector"
    and "\<not> inspector insn (fst (qbx_fmm_geometry_data self spec st))"
  shows "driver_calls (snd (exec_compute_potential_insn_fmm self env insn fmm_driver st))
           = driver_calls st
       \<and> (\<forall>r. fst (exec_compute_potential_insn_fmm self env insn fmm_driver st) = Inr r
             \<longrightarrow> r = Placeholders (map (\<lambda>out. (output_name out, IntValue 0)) (outputs insn)))
       \<and> (\<forall>ready. fmm_setup self env insn (fst (qbx_fmm_geometry_data self spec st)) = Inr ready
               \<and> target_state_FAILED (fmm_geometry env)
                   \<notin> set (user_target_to_center (fmm_geometry env)
                            (fst (qbx_fmm_geometry_data self spec st)))
             \<longrightarrow> fst (exec_compute_potential_insn_fmm self env insn fmm_driver st)
                   = Inr (Placeholders
                            (map (\<lambda>out. (output_name out, IntValue 0)) (outputs insn))))"
proof (cases "fmm_setup self env insn (fst (qbx_fmm_geometry_data self spec st))")
  case (Inl e)
  from exec_fmm_setup_error [OF assms(1) Inl, of fmm_driver] show ?thesis
    by (simp add: Inl geometry_request_driver_calls)
next
  case (Inr ready)
  show ?thesis
  proof (cases "has_failed_targets (fmm_geometry env)
                  (fst (qbx_fmm_geometry_data self spec st))")
    case True
    then have "target_state_FAILED (fmm_geometry env)
                   \<in> set (user_target_to_center (fmm_geometry env)
                            (fst (qbx_fmm_geometry_data self spec st)))"
      by (auto simp: has_failed_targets_def list_ex_iff)
    with exec_fmm_failed [OF assms(1) Inr True, of fmm_driver] show ?thesis
      by (simp add: Inr geometry_request_driver_calls)
  next
    case False
    from exec_fmm_veto [OF assms(1) Inr False assms(2) assms(3), of fmm_driver] show ?thesis
      by (simp add: Inr geometry_request_driver_calls driver_calls_inspected
            zero_placeholders_def)
  qed
qed

theorem inspector_veto_returns_placeholders_witness:
  "fst (exec_compute_potential_insn_fmm
          (example_source \<lparr> geometry_data_inspector := Some veto_inspector \<rparr>)
          (example_fmm_env [0, 1, - 1, 0, 0, 0, 5]) example_insn example_driver empty_session)
     = Inr (Placeholders [(''a'', IntValue 0), (''b'', IntValue 0), (''c'', IntValue 0)])
   \<and> driver_calls (snd (exec_compute_potential_insn_fmm
          (example_source \<lparr> geometry_data_inspector := Some veto_inspector \<rparr>)
          (example_fmm_env [0, 1, - 1, 0, 0, 0, 5]) example_insn example_driver empty_session))
       = 0"
proof -
  have targets: "get_target_discrs_and_qbx_sides
      (places_get_geometry (example_fmm_env [0, 1, - 1, 0, 0, 0, 5])) example_insn
        = Inr (example_numbering, [(example_target, 0), (example_discr, 1)])"
    using example_gather by (simp add: example_fmm_env_def)
  have hook: "geometry_data_inspector
                (example_source \<lparr> geometry_data_inspector := Some veto_inspector \<rparr>)
              = Some veto_inspector"
    by simp
  have veto: "\<not> veto_inspector example_insn
      (fst (qbx_fmm_geometry_data
              (example_source \<lparr> geometry_data_inspector := Some veto_inspector \<rparr>)
              [(example_target, 0), (example_discr, 1)] empty_session))"
    by (simp add: veto_inspector_def)
  have ready: "fmm_setup (example_source \<lparr> geometry_data_inspector := Some veto_inspector \<rparr>)
      (example_fmm_env [0, 1, - 1, 0, 0, 0, 5]) example_insn geo_data
     = Inr ((), HelmholtzKernel 3 ''k'', (), ())" for geo_data
    by (simp add: fmm_setup_def example_fmm_env_def expansion_wrangler_code_container_def
          call_get_wrangler_def example_source_def)
  have none_failed: "target_state_FAILED (fmm_geometry (example_fmm_env [0, 1, - 1, 0, 0, 0, 5]))
      \<notin> set (user_target_to_center (fmm_geometry (example_fmm_env [0, 1, - 1, 0, 0, 0, 5]))
               (fst (qbx_fmm_geometry_data
                       (example_source \<lparr> geometry_data_inspector := Some veto_inspector \<rparr>)
                       [(example_target, 0), (example_discr, 1)] empty_session)))"
    by (simp add: example_fmm_env_def example_accessors_def)
  have names: "map (\<lambda>out. (output_name out, IntValue 0)) (outputs example_insn)
                 = [(''a'', IntValue 0), (''b'', IntValue 0), (''c'', IntValue 0)]"
    by (simp add: example_insn_def example_outputs_def)
  have no_calls: "driver_calls empty_session = 0"
    by (simp add: driver_calls_def empty_session_def)
  from inspector_veto_returns_placeholders [OF targets hook veto, of example_driver]
    ready none_failed
  show ?thesis
    unfolding names no_calls by blast
qed

text \<open>
  For comparison, the same instruction without failed targets and without a hook: the
  driver runs once and every output receives its slice of the driver's result.
\<close>

lemma example_fmm_run:
  "exec_compute_potential_insn_fmm example_source (example_fmm_env [0, 1, - 1, 0, 0, 0, 5])
     example_insn example_driver example_session
   = (Inr (Potentials
            [(''a'', ArrayValue [10, 11, 12]), (''b'', ArrayValue [13, 14, 15, 16]),
             (''c'', ArrayValue [20, 21, 22])] ()),
      example_session \<lparr> log := log example_session @ [DriverCalled] \<rparr>)"
  by (simp add: exec_compute_potential_insn_fmm_def example_fmm_env_def example_accessors_def
        example_insn_def example_outputs_def get_target_discrs_and_qbx_sides_def
        example_places_def output_key_def normalized_side_def qbx_fmm_geometry_data_def
        example_session_def fmm_setup_def expansion_wrangler_code_container_def
        call_get_wrangler_def example_source_def has_failed_targets_def geometry_inspection_def example_driver_def
        output_potential_def target_slice_def array_slice_def)


text \<open>
  One evaluation invokes the driver at most once, for the whole target list: all outputs
  are served by this single run.
\<close>

lemma fmm_driver_called_at_most_once:
  "driver_calls (snd (exec_compute_potential_insn_fmm self env insn fmm_driver st))
     \<le> Suc (driver_calls st)"
proof (cases "get_target_discrs_and_qbx_sides (places_get_geometry env) insn")
  case (Inl e)
  then show ?thesis by (simp add: exec_compute_potential_insn_fmm_def)
next
  case (Inr gathered_targets)
  obtain numbering spec where g: "gathered_targets = (numbering, spec)"
    by (cases gathered_targets)
  obtain geo st1 where eq: "qbx_fmm_geometry_data self spec st = (geo, st1)"
    by (cases "qbx_fmm_geometry_data self spec st")
  then have calls: "driver_calls st1 = driver_calls st"
    using geometry_request_driver_calls [of self spec st] by simp
  have inspected: "driver_calls (snd (geometry_inspection self insn geo st1)) = driver_calls st"
    using calls by (simp add: geometry_inspection_def driver_calls_def split: option.split)
  obtain perform st2 where insp: "geometry_inspection self insn geo st1 = (perform, st2)"
    by (cases "geometry_inspection self insn geo st1")
  with inspected have calls2: "driver_calls st2 = driver_calls st" by simp
  then have driven: "driver_calls (st2 \<lparr> log := log st2 @ [DriverCalled] \<rparr>)
                       = Suc (driver_calls st)"
    by (simp add: driver_calls_def)
  show ?thesis
    using Inr g eq insp calls calls2 driven
    by (simp add: exec_compute_potential_insn_fmm_def split: sum.split prod.split bool.split)
qed


section \<open>Properties of the direct evaluation\<close>

lemma scan_count:
  "snd (qbx_target_numberer_scan xs i prev_item (numbers, count))
     = (if xs = [] then count else prev_item + int (length (filter (\<lambda>c. c \<ge> 0) xs)))"
proof (induction xs arbitrary: i prev_item numbers count)
  case Nil
  then show ?case by simp
next
  case (Cons center rest)
  show ?case
    by (cases "rest = []") (simp_all add: Cons.IH Let_def)
qed

lemma numberer_count:
  "tgt \<noteq> [] \<Longrightarrow>
   snd (qbx_target_numberer env tgt) = int (length (filter (\<lambda>c. c \<ge> 0) tgt))"
  by (simp add: qbx_target_numberer_def scan_count)

lemma direct_other_output_wf:
  assumes "wf_session st"
  shows "wf_session (snd (direct_other_output self env out target_discr st))"
proof (cases "p2p env target_discr")
  case (Inl e)
  with assms show ?thesis by (simp add: direct_other_output_def)
next
  case (Inr output_for_each_kernel)
  obtain geo st1 where eq: "qbx_fmm_geometry_data self
      [(target_discr, normalized_side (qbx_forced_limit out))] st = (geo, st1)"
    by (cases "qbx_fmm_geometry_data self
                 [(target_discr, normalized_side (qbx_forced_limit out))] st")
  with assms have "wf_session st1"
    using wf_session_request
      [of st self "[(target_discr, normalized_side (qbx_forced_limit out))]"]
    by simp
  with Inr eq show ?thesis
    by (simp add: direct_other_output_def Let_def)
qed

lemma direct_output_wf:
  "wf_session st \<Longrightarrow> wf_session (snd (direct_output self env out st))"
  by (simp add: direct_output_def direct_other_output_wf split: sum.split)

lemma direct_other_output_unforced:
  assumes "qbx_forced_limit out = None" and "p2p env target_discr = Inr output_for_each_kernel"
  shows "direct_other_output self env out target_discr st
     = (let geo_request = qbx_fmm_geometry_data self [(target_discr, 0)] st;
            tgt_to_qbx_center =
              drop (ncenters (direct_geometry env) (fst geo_request))
                (user_target_to_center (direct_geometry env) (fst geo_request))
        in (direct_correction env out target_discr (fst geo_request) tgt_to_qbx_center
              (qbx_target_numberer env tgt_to_qbx_center) output_for_each_kernel,
            snd geo_request))"
  using assms
  by (simp add: direct_other_output_def normalized_side_def forced_limit_unsatisfied_def
        Let_def split: prod.split)

lemma direct_output_forced_unsatisfied:
  assumes wf: "wf_session st"
    and limit: "qbx_forced_limit out = Some limit" "\<bar>limit\<bar> = 1"
    and target: "get_discretization env (target_name out) = Inr target_discr"
      "discr_id target_discr \<noteq> discr_id (density_discr self)"
    and count: "\<forall>g. geo_targets g = [(target_discr, limit)]
        \<longrightarrow> geometry_target_count (direct_geometry env) g = nnodes target_discr
          \<and> associated_target_count (direct_geometry env) g < nnodes target_discr"
  shows "\<exists>e. fst (direct_output self env out st) = Inl e"
    and "p2p env target_discr = Inr output_for_each_kernel
           \<Longrightarrow> fst (direct_output self env out st) = Inl no_matching_center"
proof -
  obtain geo st1 where
    eq: "qbx_fmm_geometry_data self [(target_discr, limit)] st = (geo, st1)"
    by (cases "qbx_fmm_geometry_data self [(target_discr, limit)] st")
  define tgt where
    "tgt = drop (ncenters (direct_geometry env) geo)
             (user_target_to_center (direct_geometry env) geo)"
  from wf eq have "geo_targets geo = [(target_discr, limit)]"
    using geometry_request_targets [of st self "[(target_discr, limit)]"] by simp
  with count have len: "length tgt = nnodes target_discr"
    and less: "length (filter (\<lambda>c. c \<ge> 0) tgt) < nnodes target_discr"
    by (simp_all add: tgt_def geometry_target_count_def associated_target_count_def)
  then have "tgt \<noteq> []" by auto
  then have "snd (qbx_target_numberer env tgt) = int (length (filter (\<lambda>c. c \<ge> 0) tgt))"
    by (rule numberer_count)
  with less limit
  have unsat: "forced_limit_unsatisfied out (snd (qbx_target_numberer env tgt)) target_discr"
    by (simp add: forced_limit_unsatisfied_def)
  have other: "direct_output self env out st = direct_other_output self env out target_discr st"
    using target by (auto simp: direct_output_def)
  show "fst (direct_output self env out st) = Inl no_matching_center"
    if "p2p env target_discr = Inr output_for_each_kernel"
    using that eq unsat limit
    by (simp add: other direct_other_output_def normalized_side_def tgt_def Let_def)
  show "\<exists>e. fst (direct_output self env out st) = Inl e"
    using eq unsat limit
    by (cases "p2p env target_discr")
       (simp_all add: other direct_other_output_def normalized_side_def tgt_def Let_def)
qed

lemma direct_outputs_forced_unsatisfied:
  assumes "out \<in> set outs" and "wf_session st"
    and "qbx_forced_limit out = Some limit" and "\<bar>limit\<bar> = 1"
    and "get_discretization env (target_name out) = Inr target_discr"
    and "discr_id target_discr \<noteq> discr_id (density_discr self)"
    and "\<forall>g. geo_targets g = [(target_discr, limit)]
        \<longrightarrow> geometry_target_count (direct_geometry env) g = nnodes target_discr
          \<and> associated_target_count (direct_geometry env) g < nnodes target_discr"
  shows "\<exists>e. fst (direct_outputs self env outs st) = Inl e"
  using assms(1,2)
proof (induction outs arbitrary: st)
  case Nil
  then show ?case by simp
next
  case (Cons first rest)
  obtain r st1 where step: "direct_output self env first st = (r, st1)"
    by (cases "direct_output self env first st")
  from Cons.prems(2) have wf1: "wf_session st1"
    using direct_output_wf [of st self env first] step by simp
  show ?case
  proof (cases r)
    case (Inl e)
    with step show ?thesis by simp
  next
    case (Inr v)
    have "first \<noteq> out"
    proof
      assume "first = out"
      with direct_output_forced_unsatisfied(1) [OF Cons.prems(2) assms(3-7)] step Inr
      show False by simp
    qed
    with Cons.prems(1) have "out \<in> set rest" by simp
    from Cons.IH [OF this wf1] obtain e where "fst (direct_outputs self env rest st1) = Inl e"
      by blast
    with step Inr show ?thesis
      by (cases "direct_outputs self env rest st1") simp
  qed
qed

text \<open>
  Claim C2. In the direct path, let an output have a forced limit of absolute value 1 and a
  target discretization that is not the source's own density discretization, and let the
  geometry for this target and side have one association entry per node of the target, fewer
  of them associated to a center than the target has nodes. Then the evaluation of the
  instruction raises: it returns an error and no values. At the output itself, once the
  point-to-point sum is computed, the error is the \<^verbatim>\<open>RuntimeError\<close> of line 920.
\<close>

theorem forced_limit_without_center_raises:
  assumes "wf_session st" and "out \<in> set (outputs insn)"
    and "qbx_forced_limit out = Some limit" and "\<bar>limit\<bar> = 1"
    and "get_discretization env (target_name out) = Inr target_discr"
    and "discr_id target_discr \<noteq> discr_id (density_discr self)"
    and "\<forall>g. geo_targets g = [(target_discr, limit)]
        \<longrightarrow> geometry_target_count (direct_geometry env) g = nnodes target_discr
          \<and> associated_target_count (direct_geometry env) g < nnodes target_discr"
  shows "(\<exists>e. fst (exec_compute_potential_insn_direct self env insn st) = Inl e)
       \<and> (\<forall>p2p_result. p2p env target_discr = Inr p2p_result
             \<longrightarrow> fst (direct_output self env out st) = Inl no_matching_center)"
proof -
  have "\<exists>e. fst (exec_compute_potential_insn_direct self env insn st) = Inl e"
    using direct_outputs_forced_unsatisfied [OF assms(2,1,3-7)]
    by (cases "direct_preparation env")
       (simp_all add: exec_compute_potential_insn_direct_def)
  moreover have "\<forall>p2p_result. p2p env target_discr = Inr p2p_result
             \<longrightarrow> fst (direct_output self env out st) = Inl no_matching_center"
    using direct_output_forced_unsatisfied(2) [OF assms(1,3-7)] by blast
  ultimately show ?thesis by blast
qed

lemmas example_direct_defs =
  exec_compute_potential_insn_direct_def direct_output_def direct_other_output_def
  direct_self_output_def direct_correction_def forced_limit_unsatisfied_def
  qbx_target_numberer_def py_slice_to_def kernel_result_def example_direct_env_def
  example_get_discretization_def example_accessors_def forced_output_def unforced_output_def
  qbx_fmm_geometry_data_def new_geometry_data_def empty_session_def normalized_side_def
  example_source_def example_discr_def example_target_def example_direct_insn_def
  example_association_def

theorem forced_limit_without_center_raises_witness:
  "fst (exec_compute_potential_insn_direct (example_source :: nat qbx_source)
          (example_direct_env example_association) example_direct_insn empty_session)
     = Inl no_matching_center
   \<and> fst (direct_output (example_source :: nat qbx_source) (example_direct_env example_association)
            forced_output empty_session)
     = Inl no_matching_center"
proof -
  have run: "fst (exec_compute_potential_insn_direct (example_source :: nat qbx_source)
          (example_direct_env example_association) example_direct_insn empty_session)
     = Inl no_matching_center"
    by (simp add: example_direct_defs upt_rec)
  have "wf_session empty_session"
    by (rule wf_session_empty)
  moreover have "forced_output \<in> set (outputs example_direct_insn)"
    by (simp add: example_direct_insn_def)
  moreover have "qbx_forced_limit forced_output = Some 1" and "\<bar>1::int\<bar> = 1"
    by (simp_all add: forced_output_def)
  moreover have "get_discretization (example_direct_env example_association)
                   (target_name forced_output) = Inr example_target"
    by (simp add: example_direct_env_def example_get_discretization_def forced_output_def)
  moreover have "discr_id example_target \<noteq> discr_id (density_discr (example_source :: nat qbx_source))"
    by (simp add: example_target_def example_source_def example_discr_def)
  moreover have "\<forall>g. geo_targets g = [(example_target, 1)]
        \<longrightarrow> geometry_target_count (direct_geometry (example_direct_env example_association)) g
              = nnodes example_target
          \<and> associated_target_count (direct_geometry (example_direct_env example_association)) g
              < nnodes example_target"
    by (simp add: geometry_target_count_def associated_target_count_def example_direct_env_def
          example_accessors_def example_association_def example_target_def)
  moreover have "p2p (example_direct_env example_association) example_target
                   = Inr [[10, 11, 12], [20, 21, 22]]"
    by (simp add: example_direct_env_def)
  ultimately show ?thesis
    using forced_limit_without_center_raises
      [of empty_session forced_output example_direct_insn 1
          "example_direct_env example_association" example_target
          "example_source :: nat qbx_source"]
      run
    by blast
qed

text \<open>
  Claim C10. An output whose forced limit is \<^verbatim>\<open>None\<close> is known to the engine by the key
  with \<^verbatim>\<open>None\<close>, while the geometry is built or queried with the side 0. In the FMM path the
  dictionary maps the key (target name, \<^verbatim>\<open>None\<close>) to an entry of the target list whose side
  is 0. In the direct path, for a target other than the source's own discretization, the
  geometry is requested for the pair of the target and 0, and the test of the forced limit
  is passed over whatever the number of associated targets is: the evaluation goes on to
  the correction step.
\<close>

theorem unforced_limit_is_side_zero:
  "(get_target_discrs_and_qbx_sides get_geometry insn = Inr (numbering, discrs)
      \<and> out \<in> set (outputs insn) \<and> qbx_forced_limit out = None
     \<longrightarrow> (\<exists>i<length discrs. numbering (target_name out, None) = Some i
                            \<and> key_entry get_geometry (target_name out, None) (discrs ! i)
                            \<and> snd (discrs ! i) = 0))
   \<and> (qbx_forced_limit out' = None
        \<and> get_discretization env (target_name out') = Inr target_discr
        \<and> discr_id (density_discr self) \<noteq> discr_id target_discr
        \<and> p2p env target_discr = Inr p2p_result
     \<longrightarrow> direct_output self env out' st
          = (let geo_request = qbx_fmm_geometry_data self [(target_discr, 0)] st;
                 tgt_to_qbx_center =
                   drop (ncenters (direct_geometry env) (fst geo_request))
                     (user_target_to_center (direct_geometry env) (fst geo_request))
             in (direct_correction env out' target_discr (fst geo_request) tgt_to_qbx_center
                   (qbx_target_numberer env tgt_to_qbx_center) p2p_result,
                 snd geo_request)))"
proof (intro conjI impI)
  assume h: "get_target_discrs_and_qbx_sides get_geometry insn = Inr (numbering, discrs)
      \<and> out \<in> set (outputs insn) \<and> qbx_forced_limit out = None"
  define keys where "keys = first_occurrences (map output_key (outputs insn))"
  from h have g: "gathered get_geometry keys numbering discrs"
    unfolding keys_def using get_targets_gathered by blast
  from h have key: "output_key out = (target_name out, None)"
    by (simp add: output_key_def)
  with h have "(target_name out, None) \<in> set keys"
    by (force simp: keys_def)
  from gathered_lookup [OF g this] obtain i where
    i: "i < length keys" "numbering (target_name out, None) = Some i"
       "key_entry get_geometry (target_name out, None) (discrs ! i)"
    by blast
  from g have "length discrs = length keys" by (simp add: gathered_def)
  moreover from i(3) have "snd (discrs ! i) = 0"
    by (auto simp: key_entry_def normalized_side_def split: sum.splits)
  ultimately show "\<exists>i<length discrs. numbering (target_name out, None) = Some i
                            \<and> key_entry get_geometry (target_name out, None) (discrs ! i)
                            \<and> snd (discrs ! i) = 0"
    using i by auto
next
  assume h: "qbx_forced_limit out' = None
        \<and> get_discretization env (target_name out') = Inr target_discr
        \<and> discr_id (density_discr self) \<noteq> discr_id target_discr
        \<and> p2p env target_discr = Inr p2p_result"
  then have "direct_output self env out' st = direct_other_output self env out' target_discr st"
    by (simp add: direct_output_def)
  with h show "direct_output self env out' st
          = (let geo_request = qbx_fmm_geometry_data self [(target_discr, 0)] st;
                 tgt_to_qbx_center =
                   drop (ncenters (direct_geometry env) (fst geo_request))
                     (user_target_to_center (direct_geometry env) (fst geo_request))
             in (direct_correction env out' target_discr (fst geo_request) tgt_to_qbx_center
                   (qbx_target_numberer env tgt_to_qbx_center) p2p_result,
                 snd geo_request))"
    using direct_other_output_unforced [of out' env target_discr p2p_result self st] by simp
qed

theorem unforced_limit_is_side_zero_witness:
  "example_numbering (''tgt'', None) = Some 0
   \<and> snd ([(example_target, 0 :: int), (example_discr, 1)] ! 0) = 0
   \<and> fst (direct_output (example_source :: nat qbx_source)
            (example_direct_env example_association) unforced_output empty_session)
     = Inr (''a'', ArrayValue [0, 11, 0])
   \<and> log (snd (direct_output (example_source :: nat qbx_source)
            (example_direct_env example_association) unforced_output empty_session))
     = [GeometryBuilt [(example_target, 0)]]"
proof -
  note inst = unforced_limit_is_side_zero
      [of example_places example_insn example_numbering
          "[(example_target, 0), (example_discr, 1)]" unforced_output
          unforced_output "example_direct_env example_association" example_target
          "example_source :: nat qbx_source" "[[10, 11, 12], [20, 21, 22]] :: nat list list"
          empty_session]
  have gathering: "get_target_discrs_and_qbx_sides example_places example_insn
        = Inr (example_numbering, [(example_target, 0), (example_discr, 1)])
      \<and> unforced_output \<in> set (outputs example_insn)
      \<and> qbx_forced_limit unforced_output = None"
    using example_gather
    by (simp add: example_insn_def example_outputs_def unforced_output_def)
  have "\<exists>i<length [(example_target, 0 :: int), (example_discr, 1)].
          example_numbering (target_name unforced_output, None) = Some i
          \<and> key_entry example_places (target_name unforced_output, None)
                ([(example_target, 0), (example_discr, 1)] ! i)
          \<and> snd ([(example_target, 0 :: int), (example_discr, 1)] ! i) = 0"
    by (rule inst [THEN conjunct1, THEN mp, OF gathering])
  then have fmm: "example_numbering (''tgt'', None) = Some 0
      \<and> snd ([(example_target, 0 :: int), (example_discr, 1)] ! 0) = 0"
    by (auto simp: unforced_output_def example_numbering_def)
  have direct: "qbx_forced_limit unforced_output = None
      \<and> get_discretization (example_direct_env example_association)
            (target_name unforced_output) = Inr example_target
      \<and> discr_id (density_discr (example_source :: nat qbx_source)) \<noteq> discr_id example_target
      \<and> p2p (example_direct_env example_association) example_target
            = Inr [[10, 11, 12], [20, 21, 22]]"
    by (simp add: unforced_output_def example_direct_env_def
          example_get_discretization_def example_source_def example_discr_def
          example_target_def)
  have "direct_output (example_source :: nat qbx_source)
          (example_direct_env example_association) unforced_output empty_session
        = (let geo_request = qbx_fmm_geometry_data (example_source :: nat qbx_source)
                               [(example_target, 0)] empty_session;
               tgt_to_qbx_center =
                 drop (ncenters (direct_geometry (example_direct_env example_association))
                         (fst geo_request))
                   (user_target_to_center
                      (direct_geometry (example_direct_env example_association))
                      (fst geo_request))
           in (direct_correction (example_direct_env example_association) unforced_output
                 example_target (fst geo_request) tgt_to_qbx_center
                 (qbx_target_numberer (example_direct_env example_association)
                    tgt_to_qbx_center) [[10, 11, 12], [20, 21, 22]],
               snd geo_request))"
    by (rule inst [THEN conjunct2, THEN mp, OF direct])
  then have "fst (direct_output (example_source :: nat qbx_source)
            (example_direct_env example_association) unforced_output empty_session)
     = Inr (''a'', ArrayValue [0, 11, 0])
   \<and> log (snd (direct_output (example_source :: nat qbx_source)
            (example_direct_env example_association) unforced_output empty_session))
     = [GeometryBuilt [(example_target, 0)]]"
    by (simp add: example_direct_defs upt_rec)
  with fmm show ?thesis by simp
qed


section \<open>One entry per key, one run for all outputs\<close>

lemma output_potentials_names:
  "output_potentials numbering starts all_potentials outs = Inr result
   \<Longrightarrow> map fst result = map output_name outs"
proof (induction outs arbitrary: result)
  case Nil
  then show ?case by simp
next
  case (Cons out rest)
  then show ?case
    by (auto simp: output_potential_def split: sum.splits option.splits if_splits)
qed

lemma fmm_run_serves_all_outputs:
  assumes "fst (exec_compute_potential_insn_fmm self env insn fmm_driver st)
             = Inr (Potentials result extra)"
  shows "driver_calls (snd (exec_compute_potential_insn_fmm self env insn fmm_driver st))
           = Suc (driver_calls st)
       \<and> map fst result = map output_name (outputs insn)"
proof (cases "get_target_discrs_and_qbx_sides (places_get_geometry env) insn")
  case (Inl e)
  with assms show ?thesis by (simp add: exec_compute_potential_insn_fmm_def)
next
  case (Inr gathered_targets)
  obtain numbering spec where g: "gathered_targets = (numbering, spec)"
    by (cases gathered_targets)
  obtain geo st1 where eq: "qbx_fmm_geometry_data self spec st = (geo, st1)"
    by (cases "qbx_fmm_geometry_data self spec st")
  then have calls: "driver_calls st1 = driver_calls st"
    using geometry_request_driver_calls [of self spec st] by simp
  obtain perform st2 where insp: "geometry_inspection self insn geo st1 = (perform, st2)"
    by (cases "geometry_inspection self insn geo st1")
  then have "driver_calls st2 = driver_calls st"
    using calls by (auto simp: geometry_inspection_def driver_calls_def split: option.splits)
  then have driven: "driver_calls (st2 \<lparr> log := log st2 @ [DriverCalled] \<rparr>)
                       = Suc (driver_calls st)"
    by (simp add: driver_calls_def)
  show ?thesis
  proof (cases "fmm_setup self env insn geo")
    case (Inl e)
    with assms Inr g eq show ?thesis by (simp add: exec_compute_potential_insn_fmm_def)
  next
    case ready: (Inr prepared)
    obtain strengths fmm_kernel kwargs wrangler where
      p: "prepared = (strengths, fmm_kernel, kwargs, wrangler)"
      by (cases prepared)
    have ok: "\<not> has_failed_targets (fmm_geometry env) geo"
    proof
      assume "has_failed_targets (fmm_geometry env) geo"
      with assms Inr g eq ready p show False
        by (simp add: exec_compute_potential_insn_fmm_def)
    qed
    have perform: "perform"
    proof (rule ccontr)
      assume "\<not> perform"
      with assms Inr g eq ready p insp ok show False
        by (simp add: exec_compute_potential_insn_fmm_def)
    qed
    show ?thesis
    proof (cases "fmm_driver wrangler strengths geo fmm_kernel kwargs")
      case (Inl e)
      with assms Inr g eq ready p insp ok perform show ?thesis
        by (simp add: exec_compute_potential_insn_fmm_def)
    next
      case driven_ok: (Inr driven_result)
      obtain all_potentials extra_outputs where
        d: "driven_result = (all_potentials, extra_outputs)"
        by (cases driven_result)
      show ?thesis
      proof (cases "output_potentials numbering (target_discr_starts (fmm_geometry env) geo)
                      all_potentials (outputs insn)")
        case (Inl e)
        with assms Inr g eq ready p insp ok perform driven_ok d show ?thesis
          by (simp add: exec_compute_potential_insn_fmm_def)
      next
        case sliced: (Inr r)
        with assms Inr g eq ready p insp ok perform driven_ok d
        have "result = r"
          and "snd (exec_compute_potential_insn_fmm self env insn fmm_driver st)
                 = st2 \<lparr> log := log st2 @ [DriverCalled] \<rparr>"
          by (simp_all add: exec_compute_potential_insn_fmm_def)
        with driven output_potentials_names [OF sliced] show ?thesis by simp
      qed
    qed
  qed
qed

text \<open>
  Claim C6, as amended. The target list built from an instruction's outputs has exactly
  one entry for each distinct key among the outputs, the key being the pair of the target
  name and the forced limit as the output carries it (\<^verbatim>\<open>None\<close> and 0 are different keys),
  in the order in which the keys first occur. The entry is the key's discretization with
  the normalized side; the dictionary maps the key of every output to the position of that
  entry, and two outputs are mapped to the same position only when their keys are equal.
  An evaluation through the FMM that returns potentials has invoked the driver once, and
  this one run has given every output of the instruction its value.
\<close>

theorem one_target_entry_per_key:
  assumes "get_target_discrs_and_qbx_sides (places_get_geometry env) insn
             = Inr (numbering, discrs)"
  shows "(let keys = first_occurrences (map output_key (outputs insn)) in
            distinct keys \<and> set keys = output_key ` set (outputs insn)
            \<and> length discrs = length keys
            \<and> (\<forall>i<length keys. key_entry (places_get_geometry env) (keys ! i) (discrs ! i))
            \<and> (\<forall>out\<in>set (outputs insn).
                  \<exists>i<length keys. numbering (output_key out) = Some i
                                     \<and> keys ! i = output_key out))
       \<and> (\<forall>out\<in>set (outputs insn). \<forall>out'\<in>set (outputs insn).
             numbering (output_key out) = numbering (output_key out')
             \<longrightarrow> output_key out = output_key out')
       \<and> (\<forall>result extra.
             fst (exec_compute_potential_insn_fmm self env insn fmm_driver st)
               = Inr (Potentials result extra)
             \<longrightarrow> driver_calls (snd (exec_compute_potential_insn_fmm self env insn fmm_driver st))
                   = Suc (driver_calls st)
                 \<and> map fst result = map output_name (outputs insn))"
proof -
  define keys where "keys = first_occurrences (map output_key (outputs insn))"
  have g: "gathered (places_get_geometry env) keys numbering discrs"
    unfolding keys_def using assms by (rule get_targets_gathered)
  have "distinct keys" and "set keys = output_key ` set (outputs insn)"
    by (simp_all add: keys_def)
  moreover from g have "length discrs = length keys"
    and "\<forall>i<length keys. key_entry (places_get_geometry env) (keys ! i) (discrs ! i)"
    by (simp_all add: gathered_def)
  moreover have found: "\<forall>out\<in>set (outputs insn).
                 \<exists>i<length keys. numbering (output_key out) = Some i
                                    \<and> keys ! i = output_key out"
  proof
    fix out assume "out \<in> set (outputs insn)"
    then have "output_key out \<in> set keys" by (simp add: keys_def)
    with gathered_lookup [OF g] show
      "\<exists>i<length keys. numbering (output_key out) = Some i \<and> keys ! i = output_key out"
      by blast
  qed
  ultimately have first: "let keys = first_occurrences (map output_key (outputs insn)) in
            distinct keys \<and> set keys = output_key ` set (outputs insn)
            \<and> length discrs = length keys
            \<and> (\<forall>i<length keys. key_entry (places_get_geometry env) (keys ! i) (discrs ! i))
            \<and> (\<forall>out\<in>set (outputs insn).
                  \<exists>i<length keys. numbering (output_key out) = Some i
                                     \<and> keys ! i = output_key out)"
    unfolding keys_def [symmetric] by (simp add: Let_def)
  have second: "\<forall>out\<in>set (outputs insn). \<forall>out'\<in>set (outputs insn).
             numbering (output_key out) = numbering (output_key out')
             \<longrightarrow> output_key out = output_key out'"
  proof (intro ballI impI)
    fix out out'
    assume "out \<in> set (outputs insn)" and "out' \<in> set (outputs insn)"
      and same: "numbering (output_key out) = numbering (output_key out')"
    with found obtain i j where "numbering (output_key out) = Some i" "keys ! i = output_key out"
      "numbering (output_key out') = Some j" "keys ! j = output_key out'"
      by blast
    with same show "output_key out = output_key out'" by simp
  qed
  have third: "\<forall>result extra.
             fst (exec_compute_potential_insn_fmm self env insn fmm_driver st)
               = Inr (Potentials result extra)
             \<longrightarrow> driver_calls (snd (exec_compute_potential_insn_fmm self env insn fmm_driver st))
                   = Suc (driver_calls st)
                 \<and> map fst result = map output_name (outputs insn)"
    using fmm_run_serves_all_outputs [of self env insn fmm_driver st] by blast
  from first second third show ?thesis by blast
qed

theorem one_target_entry_per_key_witness:
  "get_target_discrs_and_qbx_sides
      (places_get_geometry (example_fmm_env [0, 1, - 1, 0, 0, 0, 5])) example_insn
     = Inr (example_numbering, [(example_target, 0), (example_discr, 1)])
   \<and> first_occurrences (map output_key (outputs example_insn))
       = [(''tgt'', None), (''src'', Some 1)]
   \<and> length [(example_target, 0 :: int), (example_discr, 1)]
       = length (first_occurrences (map output_key (outputs example_insn)))
   \<and> map example_numbering (map output_key (outputs example_insn)) = [Some 0, Some 1, Some 0]
   \<and> driver_calls (snd (exec_compute_potential_insn_fmm example_source
          (example_fmm_env [0, 1, - 1, 0, 0, 0, 5]) example_insn example_driver
          example_session))
       = Suc (driver_calls example_session)
   \<and> map fst [(''a'', ArrayValue [10, 11, 12 :: nat]), (''b'', ArrayValue [13, 14, 15, 16]),
                (''c'', ArrayValue [20, 21, 22])]
       = map output_name (outputs example_insn)"
proof -
  have targets: "get_target_discrs_and_qbx_sides
      (places_get_geometry (example_fmm_env [0, 1, - 1, 0, 0, 0, 5])) example_insn
        = Inr (example_numbering, [(example_target, 0), (example_discr, 1)])"
    using example_gather by (simp add: example_fmm_env_def)
  have keys: "first_occurrences (map output_key (outputs example_insn))
       = [(''tgt'', None), (''src'', Some 1)]"
    by (simp add: example_insn_def example_outputs_def output_key_def)
  have numbers: "map example_numbering (map output_key (outputs example_insn))
       = [Some 0, Some 1, Some 0]"
    by (simp add: example_insn_def example_outputs_def output_key_def example_numbering_def)
  note inst = one_target_entry_per_key
      [OF targets, of example_source example_driver example_session]
  from inst have len: "length [(example_target, 0 :: int), (example_discr, 1)]
       = length (first_occurrences (map output_key (outputs example_insn)))"
    by (simp add: Let_def)
  have run: "fst (exec_compute_potential_insn_fmm example_source
          (example_fmm_env [0, 1, - 1, 0, 0, 0, 5]) example_insn example_driver
          example_session)
     = Inr (Potentials
              [(''a'', ArrayValue [10, 11, 12]), (''b'', ArrayValue [13, 14, 15, 16]),
               (''c'', ArrayValue [20, 21, 22])] ())"
    by (simp add: example_fmm_run)
  from inst run have "driver_calls (snd (exec_compute_potential_insn_fmm example_source
          (example_fmm_env [0, 1, - 1, 0, 0, 0, 5]) example_insn example_driver
          example_session))
       = Suc (driver_calls example_session)
     \<and> map fst [(''a'', ArrayValue [10, 11, 12 :: nat]), (''b'', ArrayValue [13, 14, 15, 16]),
                (''c'', ArrayValue [20, 21, 22])]
       = map output_name (outputs example_insn)"
    by blast
  with targets keys numbers len show ?thesis by blast
qed

text \<open>
  The claim as stated fails: two outputs on the same target, one with the forced limit
  \<^verbatim>\<open>None\<close> and one with 0, share the pair of the target discretization and the side 0, yet
  they have different keys, are mapped to different positions, and the target list holds
  the pair twice.
\<close>

theorem duplicate_target_entry_counterexample:
  "get_target_discrs_and_qbx_sides example_places duplicate_insn
     = Inr (duplicate_numbering, [(example_target, 0), (example_target, 0)])
   \<and> duplicate_numbering (''tgt'', None) = Some 0
   \<and> duplicate_numbering (''tgt'', Some 0) = Some 1
   \<and> \<not> distinct [(example_target, 0 :: int), (example_target, 0)]"
  by (simp add: get_target_discrs_and_qbx_sides_def duplicate_insn_def example_places_def
        duplicate_numbering_def output_key_def normalized_side_def)


end
